theory Spec2Isabelle
  imports Complex_Main
begin

section \<open>Monte Carlo option pricing: payoffs, parameters, statistics gatherers\<close>

text \<open>
  A shallow embedding of \<^verbatim>\<open>monte_carlo/options.py\<close>, \<^verbatim>\<open>monte_carlo/parameters.py\<close> and
  \<^verbatim>\<open>monte_carlo/statistics.py\<close>. Python floats are idealised as \<^typ>\<open>real\<close>: values
  are not rounded and arithmetic does not overflow. The one operation of the source that
  raises on overflow, \<^verbatim>\<open>math.exp\<close>, is modelled with its \<^verbatim>\<open>OverflowError\<close>, and the
  payoff method is also given on NaN, which a caller can pass in. Python ints are
  \<^typ>\<open>int\<close>. Python lists are mutable objects: the rows
  of a convergence table and the lists holding them live in an explicit store and are
  referred to by address, so that sharing between a returned list and the recorded one is
  visible. Exceptions are values of the type \<open>error\<close>, returned as \<open>Inl\<close>.
\<close>

subsection \<open>Exceptions\<close>

text \<open>
  The source has no \<^verbatim>\<open>raise\<close> statement. The exceptions it can produce come from the
  language and the library: a division by zero, \<^verbatim>\<open>math.sqrt\<close> of a negative number,
  \<^verbatim>\<open>math.exp\<close> of an argument whose exponential is too large for a float, an index out of
  range. \<open>NoDataError\<close> stands for the dedicated "no data" failure that the specification
  asks an implementation to raise; no function below returns it.
\<close>

datatype error = ZeroDivisionError | ValueError | OverflowError | IndexError | NoDataError

subsection \<open>The store of list objects\<close>

type_synonym addr = nat

datatype pyval = PyFloat real | PyInt int

text \<open>
  A row is a Python list of numbers, a table is a Python list of rows. \<open>row_at\<close> and
  \<open>list_at\<close> give the current content of the object at an address; \<open>fresh\<close> is the next
  unused address.
\<close>

record heap =
  row_at :: "addr \<Rightarrow> pyval list"
  list_at :: "addr \<Rightarrow> addr list"
  fresh :: addr

definition alloc_row :: "pyval list \<Rightarrow> heap \<Rightarrow> addr \<times> heap" where
  "alloc_row vs h = (fresh h, h\<lparr>row_at := (row_at h)(fresh h := vs), fresh := Suc (fresh h)\<rparr>)"

definition alloc_list :: "addr list \<Rightarrow> heap \<Rightarrow> addr \<times> heap" where
  "alloc_list rs h = (fresh h, h\<lparr>list_at := (list_at h)(fresh h := rs), fresh := Suc (fresh h)\<rparr>)"

definition row_append :: "addr \<Rightarrow> pyval \<Rightarrow> heap \<Rightarrow> heap" where
  "row_append a v h = h\<lparr>row_at := (row_at h)(a := row_at h a @ [v])\<rparr>"

definition list_append :: "addr \<Rightarrow> addr \<Rightarrow> heap \<Rightarrow> heap" where
  "list_append a r h = h\<lparr>list_at := (list_at h)(a := list_at h a @ [r])\<rparr>"

text \<open>The value a Python caller sees when it prints the list of rows at an address.\<close>

definition rows_of :: "heap \<Rightarrow> addr \<Rightarrow> pyval list list" where
  "rows_of h a = map (row_at h) (list_at h a)"

definition empty_heap :: heap where
  "empty_heap = \<lparr>row_at = (\<lambda>_. []), list_at = (\<lambda>_. []), fresh = 0\<rparr>"

subsection \<open>Payoffs and options (options.py)\<close>

datatype payoff =
    PayOffCall real
  | PayOffPut real
  | PayOffDoubleDigital real real

fun calc :: "payoff \<Rightarrow> real \<Rightarrow> real" where
  "calc (PayOffCall strike) spot = max (spot - strike) 0"
| "calc (PayOffPut strike) spot = max (strike - spot) 0"
| "calc (PayOffDoubleDigital lower_level upper_level) spot =
     (if spot \<le> lower_level then 0
      else if spot \<ge> upper_level then 0
      else 1)"

text \<open>
  The method \<^verbatim>\<open>calc\<close> on any float a caller may pass: a number or NaN. Every comparison
  with NaN is false, arithmetic on NaN gives NaN, and Python's \<^verbatim>\<open>max(a, b)\<close> returns \<open>b\<close>
  only if \<^verbatim>\<open>b > a\<close>. The function \<open>calc\<close> above is this method on the numbers; the
  simulation, whose values are numbers, uses \<open>calc\<close>.
\<close>

datatype pyfloat = Num real | NaN

fun py_le :: "pyfloat \<Rightarrow> pyfloat \<Rightarrow> bool" where
  "py_le (Num a) (Num b) = (a \<le> b)"
| "py_le a b = False"

fun py_ge :: "pyfloat \<Rightarrow> pyfloat \<Rightarrow> bool" where
  "py_ge (Num a) (Num b) = (a \<ge> b)"
| "py_ge a b = False"

fun py_lt :: "pyfloat \<Rightarrow> pyfloat \<Rightarrow> bool" where
  "py_lt (Num a) (Num b) = (a < b)"
| "py_lt a b = False"

fun py_gt :: "pyfloat \<Rightarrow> pyfloat \<Rightarrow> bool" where
  "py_gt (Num a) (Num b) = (a > b)"
| "py_gt a b = False"

fun py_sub :: "pyfloat \<Rightarrow> pyfloat \<Rightarrow> pyfloat" where
  "py_sub (Num a) (Num b) = Num (a - b)"
| "py_sub a b = NaN"

definition py_max :: "pyfloat \<Rightarrow> pyfloat \<Rightarrow> pyfloat" where
  "py_max a b = (if py_gt b a then b else a)"

fun calc_float :: "payoff \<Rightarrow> pyfloat \<Rightarrow> pyfloat" where
  "calc_float (PayOffCall strike) spot = py_max (py_sub spot (Num strike)) (Num 0)"
| "calc_float (PayOffPut strike) spot = py_max (py_sub (Num strike) spot) (Num 0)"
| "calc_float (PayOffDoubleDigital lower_level upper_level) spot =
     (if py_le spot (Num lower_level) then Num 0
      else if py_ge spot (Num upper_level) then Num 0
      else Num 1)"

record vanilla_option =
  expiry :: real
  pay_off :: payoff

definition VanillaOption :: "real \<Rightarrow> payoff \<Rightarrow> vanilla_option" where
  "VanillaOption e p = \<lparr>expiry = e, pay_off = p\<rparr>"

definition get_expiry :: "vanilla_option \<Rightarrow> real" where
  "get_expiry opt = expiry opt"

definition calc_pay_off :: "vanilla_option \<Rightarrow> real \<Rightarrow> real" where
  "calc_pay_off opt spot = calc (pay_off opt) spot"

subsection \<open>Parameters (parameters.py)\<close>

record parameters =
  constant_value :: real
  constant_square :: real

definition ParametersConstant :: "real \<Rightarrow> parameters" where
  "ParametersConstant c = \<lparr>constant_value = c, constant_square = c * c\<rparr>"

definition integral :: "parameters \<Rightarrow> real \<Rightarrow> real \<Rightarrow> real" where
  "integral p time1 time2 = (time2 - time1) * constant_value p"

definition integral_square :: "parameters \<Rightarrow> real \<Rightarrow> real \<Rightarrow> real" where
  "integral_square p time1 time2 = (time2 - time1) * constant_square p"

subsection \<open>Statistics gatherers (statistics.py)\<close>

text \<open>
  The two concrete subclasses of \<^verbatim>\<open>StatisticsMC\<close>. A \<open>ConvergenceTable\<close> wraps any
  gatherer, possibly another table. Its field \<open>results_so_far\<close> is the address of its list
  of recorded rows.
\<close>

datatype statistics_mc =
    StatisticsMean (running_sum: real) (paths_done: int)
  | ConvergenceTable (stats: statistics_mc) (results_so_far: addr)
      (stopping_point: int) (paths_done: int)

definition StatisticsMean_init :: statistics_mc where
  "StatisticsMean_init = StatisticsMean 0 0"

definition ConvergenceTable_init :: "statistics_mc \<Rightarrow> heap \<Rightarrow> statistics_mc \<times> heap" where
  "ConvergenceTable_init st h =
     (case alloc_list [] h of (a, h') \<Rightarrow> (ConvergenceTable st a 2 0, h'))"

text \<open>Python's \<^verbatim>\<open>xs[i]\<close> for a non-negative index.\<close>

definition py_index :: "'a list \<Rightarrow> nat \<Rightarrow> error + 'a" where
  "py_index xs i = (if i < length xs then Inr (xs ! i) else Inl IndexError)"

text \<open>
  The loop shared by \<^verbatim>\<open>dump_one_result\<close> and \<^verbatim>\<open>get_results_so_far\<close> of the table:
  \<^verbatim>\<open>for i in range(len(this_result)): this_result[i].append(paths_done);
  target.append(this_result[i])\<close>. The rows are modified in place.
\<close>

fun append_tagged :: "addr \<Rightarrow> addr \<Rightarrow> int \<Rightarrow> nat list \<Rightarrow> heap \<Rightarrow> error + heap" where
  "append_tagged this_result target pd [] h = Inr h"
| "append_tagged this_result target pd (i # is) h =
     (case py_index (list_at h this_result) i of
        Inl e \<Rightarrow> Inl e
      | Inr r \<Rightarrow>
          (let h1 = row_append r (PyInt pd) h in
           case py_index (list_at h1 this_result) i of
             Inl e \<Rightarrow> Inl e
           | Inr r' \<Rightarrow> append_tagged this_result target pd is (list_append target r' h1)))"

fun get_results_so_far :: "statistics_mc \<Rightarrow> heap \<Rightarrow> error + (addr \<times> heap)" where
  "get_results_so_far (StatisticsMean rs pd) h =
     (if pd = 0 then Inl ZeroDivisionError
      else (case alloc_row [PyFloat (rs / of_int pd)] h of
              (r, h1) \<Rightarrow> Inr (alloc_list [r] h1)))"
| "get_results_so_far (ConvergenceTable st res sp pd) h =
     (case alloc_list (list_at h res) h of
        (tmp, h1) \<Rightarrow>
          if pd \<noteq> sp then
            (case get_results_so_far st h1 of
               Inl e \<Rightarrow> Inl e
             | Inr (this_result, h2) \<Rightarrow>
                 (case append_tagged this_result tmp pd
                         [0 ..< length (list_at h2 this_result)] h2 of
                    Inl e \<Rightarrow> Inl e
                  | Inr h3 \<Rightarrow> Inr (tmp, h3)))
          else Inr (tmp, h1))"

fun dump_one_result :: "statistics_mc \<Rightarrow> real \<Rightarrow> heap \<Rightarrow> error + (statistics_mc \<times> heap)" where
  "dump_one_result (StatisticsMean rs pd) result h =
     Inr (StatisticsMean (rs + result) (pd + 1), h)"
| "dump_one_result (ConvergenceTable st res sp pd) result h =
     (case dump_one_result st result h of
        Inl e \<Rightarrow> Inl e
      | Inr (st', h1) \<Rightarrow>
          (let pd' = pd + 1 in
           if pd' = sp then
             (let sp' = \<lceil>(of_int (sp * 2) :: real)\<rceil> in
              case get_results_so_far st' h1 of
                Inl e \<Rightarrow> Inl e
              | Inr (this_result, h2) \<Rightarrow>
                  (case append_tagged this_result res pd'
                          [0 ..< length (list_at h2 this_result)] h2 of
                     Inl e \<Rightarrow> Inl e
                   | Inr h3 \<Rightarrow> Inr (ConvergenceTable st' res sp' pd', h3)))
           else Inr (ConvergenceTable st' res sp pd', h1)))"

text \<open>Feeding a sequence of results, one call of \<^verbatim>\<open>dump_one_result\<close> each, in order.\<close>

fun dump_all :: "real list \<Rightarrow> statistics_mc \<Rightarrow> heap \<Rightarrow> error + (statistics_mc \<times> heap)" where
  "dump_all [] st h = Inr (st, h)"
| "dump_all (v # vs) st h =
     (case dump_one_result st v h of
        Inl e \<Rightarrow> Inl e
      | Inr (st', h') \<Rightarrow> dump_all vs st' h')"

text \<open>What a caller reads from \<^verbatim>\<open>get_results_so_far()\<close>: the rows as values, or the exception.\<close>

definition results_view :: "statistics_mc \<Rightarrow> heap \<Rightarrow> error + pyval list list" where
  "results_view st h =
     (case get_results_so_far st h of
        Inl e \<Rightarrow> Inl e
      | Inr (a, h') \<Rightarrow> Inr (rows_of h' a))"

subsection \<open>The simulation (options.py)\<close>

text \<open>
  Python's module \<^verbatim>\<open>random\<close> is not part of the repository. Its process-wide generator is a
  state of an arbitrary type \<open>'g\<close>, threaded through the calls; \<open>seed_rng\<close> stands for
  \<^verbatim>\<open>random.seed\<close> (the state reached from a seed, whatever the state before) and \<open>gauss\<close> for
  \<^verbatim>\<open>random.gauss(0, 1)\<close> (a draw and the next state). Both are parameters of the model.
\<close>

text \<open>\<^verbatim>\<open>math.sqrt\<close> raises \<^verbatim>\<open>ValueError\<close> on a negative argument.\<close>

definition py_sqrt :: "real \<Rightarrow> error + real" where
  "py_sqrt x = (if x < 0 then Inl ValueError else Inr (sqrt x))"

text \<open>Python's \<^verbatim>\<open>xs[-1]\<close>.\<close>

definition py_last :: "'a list \<Rightarrow> error + 'a" where
  "py_last xs = (if xs = [] then Inl IndexError else Inr (last xs))"

text \<open>
  \<^verbatim>\<open>math.exp\<close> raises \<^verbatim>\<open>OverflowError\<close> when the exponential is too large for a double. The
  largest double whose exponential is finite is 709.782712893384 (to the last digit
  printed), the next double above it overflows.
\<close>

definition exp_overflow_arg :: real where
  "exp_overflow_arg = 709.782712893384"

definition py_exp :: "real \<Rightarrow> error + real" where
  "py_exp x = (if x > exp_overflow_arg then Inl OverflowError else Inr (exp x))"

text \<open>The loop \<^verbatim>\<open>for _ in range(number_of_paths)\<close> of \<^verbatim>\<open>Simulation.option_price\<close>.\<close>

fun simulate_paths ::
  "('g \<Rightarrow> real \<times> 'g) \<Rightarrow> vanilla_option \<Rightarrow> real \<Rightarrow> real \<Rightarrow> real \<Rightarrow> nat \<Rightarrow>
   statistics_mc \<Rightarrow> 'g \<Rightarrow> heap \<Rightarrow> error + (statistics_mc \<times> 'g \<times> heap)" where
  "simulate_paths gauss opt moved_spot root_variance discounting 0 gatherer g h =
     Inr (gatherer, g, h)"
| "simulate_paths gauss opt moved_spot root_variance discounting (Suc n) gatherer g h =
     (case gauss g of
        (this_gaussian, g') \<Rightarrow>
          (case py_exp (root_variance * this_gaussian) of
             Inl e \<Rightarrow> Inl e
           | Inr growth \<Rightarrow>
               (let this_spot = moved_spot * growth;
                    this_payoff = calc_pay_off opt this_spot in
                case dump_one_result gatherer (discounting * this_payoff) h of
                  Inl e \<Rightarrow> Inl e
                | Inr (gatherer', h') \<Rightarrow>
                    simulate_paths gauss opt moved_spot root_variance discounting n
                      gatherer' g' h')))"

definition option_price ::
  "(int \<Rightarrow> 'g) \<Rightarrow> ('g \<Rightarrow> real \<times> 'g) \<Rightarrow> vanilla_option \<Rightarrow> real \<Rightarrow> parameters \<Rightarrow> parameters \<Rightarrow>
   int \<Rightarrow> statistics_mc \<Rightarrow> int option \<Rightarrow> 'g \<Rightarrow> heap \<Rightarrow> error + (statistics_mc \<times> 'g \<times> heap)" where
  "option_price seed_rng gauss opt spot vol r number_of_paths gatherer seed g h =
     (let g0 = (case seed of None \<Rightarrow> g | Some s \<Rightarrow> seed_rng s);
          variance = integral_square vol 0 (get_expiry opt) in
      case py_sqrt variance of
        Inl e \<Rightarrow> Inl e
      | Inr root_variance \<Rightarrow>
          (let ito_correction = - 0.5 * variance in
           case py_exp (integral r 0 (get_expiry opt) + ito_correction) of
             Inl e \<Rightarrow> Inl e
           | Inr drift \<Rightarrow>
               (let moved_spot = spot * drift in
                case py_exp (- integral r 0 (get_expiry opt)) of
                  Inl e \<Rightarrow> Inl e
                | Inr discounting \<Rightarrow>
                    simulate_paths gauss opt moved_spot root_variance discounting
                      (nat number_of_paths) gatherer g0 h)))"

subsection \<open>The pricing facade (options.py)\<close>

definition call_price_stats ::
  "(int \<Rightarrow> 'g) \<Rightarrow> ('g \<Rightarrow> real \<times> 'g) \<Rightarrow> real \<Rightarrow> real \<Rightarrow> real \<Rightarrow> real \<Rightarrow> real \<Rightarrow>
   int \<Rightarrow> int option \<Rightarrow> 'g \<Rightarrow> heap \<Rightarrow> error + (statistics_mc \<times> 'g \<times> heap)" where
  "call_price_stats seed_rng gauss strike expiry_t spot vol r number_of_paths seed g h =
     (case ConvergenceTable_init StatisticsMean_init h of
        (gatherer, h0) \<Rightarrow>
          option_price seed_rng gauss (VanillaOption expiry_t (PayOffCall strike)) spot
            (ParametersConstant vol) (ParametersConstant r) number_of_paths gatherer seed g h0)"

definition put_price_stats ::
  "(int \<Rightarrow> 'g) \<Rightarrow> ('g \<Rightarrow> real \<times> 'g) \<Rightarrow> real \<Rightarrow> real \<Rightarrow> real \<Rightarrow> real \<Rightarrow> real \<Rightarrow>
   int \<Rightarrow> int option \<Rightarrow> 'g \<Rightarrow> heap \<Rightarrow> error + (statistics_mc \<times> 'g \<times> heap)" where
  "put_price_stats seed_rng gauss strike expiry_t spot vol r number_of_paths seed g h =
     (case ConvergenceTable_init StatisticsMean_init h of
        (gatherer, h0) \<Rightarrow>
          option_price seed_rng gauss (VanillaOption expiry_t (PayOffPut strike)) spot
            (ParametersConstant vol) (ParametersConstant r) number_of_paths gatherer seed g h0)"

text \<open>\<^verbatim>\<open>convergence_table.get_results_so_far()[-1][0]\<close>\<close>

definition last_row_value :: "statistics_mc \<Rightarrow> heap \<Rightarrow> error + pyval" where
  "last_row_value convergence_table h =
     (case get_results_so_far convergence_table h of
        Inl e \<Rightarrow> Inl e
      | Inr (a, h') \<Rightarrow>
          (case py_last (list_at h' a) of
             Inl e \<Rightarrow> Inl e
           | Inr row \<Rightarrow> py_index (row_at h' row) 0))"

definition call_price ::
  "(int \<Rightarrow> 'g) \<Rightarrow> ('g \<Rightarrow> real \<times> 'g) \<Rightarrow> real \<Rightarrow> real \<Rightarrow> real \<Rightarrow> real \<Rightarrow> real \<Rightarrow>
   int \<Rightarrow> int option \<Rightarrow> 'g \<Rightarrow> heap \<Rightarrow> error + pyval" where
  "call_price seed_rng gauss strike expiry_t spot vol r number_of_paths seed g h =
     (case call_price_stats seed_rng gauss strike expiry_t spot vol r number_of_paths seed g h of
        Inl e \<Rightarrow> Inl e
      | Inr (convergence_table, g', h') \<Rightarrow> last_row_value convergence_table h')"

definition put_price ::
  "(int \<Rightarrow> 'g) \<Rightarrow> ('g \<Rightarrow> real \<times> 'g) \<Rightarrow> real \<Rightarrow> real \<Rightarrow> real \<Rightarrow> real \<Rightarrow> real \<Rightarrow>
   int \<Rightarrow> int option \<Rightarrow> 'g \<Rightarrow> heap \<Rightarrow> error + pyval" where
  "put_price seed_rng gauss strike expiry_t spot vol r number_of_paths seed g h =
     (case put_price_stats seed_rng gauss strike expiry_t spot vol r number_of_paths seed g h of
        Inl e \<Rightarrow> Inl e
      | Inr (convergence_table, g', h') \<Rightarrow> last_row_value convergence_table h')"

subsection \<open>Functions used to state the properties\<close>

text \<open>The first \<open>n\<close> draws of the generator from the state \<open>g\<close>, in order.\<close>

fun draws :: "('g \<Rightarrow> real \<times> 'g) \<Rightarrow> nat \<Rightarrow> 'g \<Rightarrow> real list" where
  "draws gauss 0 g = []"
| "draws gauss (Suc n) g = (case gauss g of (z, g') \<Rightarrow> z # draws gauss n g')"

text \<open>The state of the generator after \<open>n\<close> draws.\<close>

fun after_draws :: "('g \<Rightarrow> real \<times> 'g) \<Rightarrow> nat \<Rightarrow> 'g \<Rightarrow> 'g" where
  "after_draws gauss 0 g = g"
| "after_draws gauss (Suc n) g = after_draws gauss n (snd (gauss g))"

text \<open>
  The rows a table over a mean records while the values \<open>vs\<close> are fed to it, when the mean
  holds the sum \<open>s\<close> of \<open>pd\<close> values and the next stopping point is \<open>sp\<close>.
\<close>

fun snapshots :: "real \<Rightarrow> int \<Rightarrow> int \<Rightarrow> real list \<Rightarrow> pyval list list" where
  "snapshots s pd sp [] = []"
| "snapshots s pd sp (v # vs) =
     (if pd + 1 = sp
      then [PyFloat ((s + v) / of_int (pd + 1)), PyInt (pd + 1)] # snapshots (s + v) (pd + 1) (sp * 2) vs
      else snapshots (s + v) (pd + 1) sp vs)"

text \<open>The stopping point after the values \<open>vs\<close> have been fed.\<close>

fun next_stop :: "int \<Rightarrow> int \<Rightarrow> 'a list \<Rightarrow> int" where
  "next_stop pd sp [] = sp"
| "next_stop pd sp (v # vs) = next_stop (pd + 1) (if pd + 1 = sp then sp * 2 else sp) vs"

text \<open>The column \<^verbatim>\<open>pathsUsed\<close> of a table: the second entry of each row.\<close>

fun paths_used :: "pyval list \<Rightarrow> int option" where
  "paths_used [x, PyInt k] = Some k"
| "paths_used row = None"

text \<open>The values \<^verbatim>\<open>option_price\<close> hands to the gatherer, from the draws \<open>zs\<close>.\<close>

definition fed_values :: "vanilla_option \<Rightarrow> real \<Rightarrow> parameters \<Rightarrow> parameters \<Rightarrow> real list \<Rightarrow> real list" where
  "fed_values opt spot vol r zs =
     (let R = integral r 0 (expiry opt); V = integral_square vol 0 (expiry opt) in
      map (\<lambda>z. exp (- R) * calc_pay_off opt (spot * exp (R - V / 2) * exp (sqrt V * z))) zs)"

text \<open>
  No call of \<^verbatim>\<open>math.exp\<close> in \<^verbatim>\<open>option_price\<close> overflows: not the one for the moved spot,
  not the one for the discount factor, and not the one of any path with a draw in \<open>zs\<close>.
\<close>

definition no_overflow :: "vanilla_option \<Rightarrow> parameters \<Rightarrow> parameters \<Rightarrow> real list \<Rightarrow> bool" where
  "no_overflow opt vol r zs \<longleftrightarrow>
     integral r 0 (expiry opt) + - 0.5 * integral_square vol 0 (expiry opt) \<le> exp_overflow_arg
   \<and> - integral r 0 (expiry opt) \<le> exp_overflow_arg
   \<and> list_all (\<lambda>z. sqrt (integral_square vol 0 (expiry opt)) * z \<le> exp_overflow_arg) zs"

text \<open>
  Observations of a gatherer and its store after a run that may have failed: the rows
  \<^verbatim>\<open>get_results_so_far()\<close> returns, the rows recorded in \<^verbatim>\<open>results_so_far\<close>, and the state
  left behind by one call of \<^verbatim>\<open>get_results_so_far()\<close> whose result is dropped.
\<close>

definition returned_rows :: "error + (statistics_mc \<times> heap) \<Rightarrow> error + pyval list list" where
  "returned_rows run =
     (case run of Inl e \<Rightarrow> Inl e | Inr (st, h) \<Rightarrow> results_view st h)"

definition recorded_rows :: "error + (statistics_mc \<times> heap) \<Rightarrow> error + pyval list list" where
  "recorded_rows run =
     (case run of Inl e \<Rightarrow> Inl e | Inr (st, h) \<Rightarrow> Inr (rows_of h (results_so_far st)))"

definition after_query :: "error + (statistics_mc \<times> heap) \<Rightarrow> error + (statistics_mc \<times> heap)" where
  "after_query run =
     (case run of
        Inl e \<Rightarrow> Inl e
      | Inr (st, h) \<Rightarrow>
          (case get_results_so_far st h of
             Inl e \<Rightarrow> Inl e
           | Inr (a, h') \<Rightarrow> Inr (st, h')))"

text \<open>
  What a caller can read from the table a pricing call returns: its recorded rows and the
  rows (or the exception) of \<^verbatim>\<open>get_results_so_far()\<close>.
\<close>

definition table_content ::
  "error + (statistics_mc \<times> heap) \<Rightarrow> error + (pyval list list \<times> (error + pyval list list))" where
  "table_content run =
     (case run of
        Inl e \<Rightarrow> Inl e
      | Inr (st, h) \<Rightarrow> Inr (rows_of h (results_so_far st), results_view st h))"

text \<open>The gatherer and the store of a run, without the generator.\<close>

definition drop_rng :: "error + (statistics_mc \<times> 'g \<times> heap) \<Rightarrow> error + (statistics_mc \<times> heap)" where
  "drop_rng run = (case run of Inl e \<Rightarrow> Inl e | Inr (st, g, h) \<Rightarrow> Inr (st, h))"

text \<open>
  Concrete runs: \<^verbatim>\<open>ConvergenceTable(StatisticsMean())\<close> and
  \<^verbatim>\<open>ConvergenceTable(ConvergenceTable(StatisticsMean()))\<close> built in the empty store and fed
  the given values.
\<close>

definition mean_table_fed :: "real list \<Rightarrow> error + (statistics_mc \<times> heap)" where
  "mean_table_fed vs =
     (case ConvergenceTable_init StatisticsMean_init empty_heap of
        (t, h) \<Rightarrow> dump_all vs t h)"

definition nested_table_fed :: "real list \<Rightarrow> error + (statistics_mc \<times> heap)" where
  "nested_table_fed vs =
     (case ConvergenceTable_init StatisticsMean_init empty_heap of
        (inner, h0) \<Rightarrow>
          (case ConvergenceTable_init inner h0 of
             (outer, h1) \<Rightarrow> dump_all vs outer h1))"

text \<open>
  A sample generator for concrete evaluations: its state is a counter, the seed sets the
  counter, the \<open>k\<close>-th draw is \<open>k\<close>.
\<close>

definition counter_seed :: "int \<Rightarrow> nat" where
  "counter_seed s = nat s"

definition counter_gauss :: "nat \<Rightarrow> real \<times> nat" where
  "counter_gauss k = (real k, Suc k)"

section \<open>Lemmas on the store and on a table over a mean\<close>

lemmas heap_defs = alloc_row_def alloc_list_def row_append_def list_append_def py_index_def

lemma get_mean:
  "pd \<noteq> 0 \<Longrightarrow> get_results_so_far (StatisticsMean rs pd) h =
     Inr (Suc (fresh h),
          h\<lparr>row_at := (row_at h)(fresh h := [PyFloat (rs / of_int pd)]),
            list_at := (list_at h)(Suc (fresh h) := [fresh h]),
            fresh := Suc (Suc (fresh h))\<rparr>)"
  by (simp add: heap_defs)

lemma get_table_mean:
  "n \<noteq> 0 \<Longrightarrow> pd \<noteq> sp \<Longrightarrow>
   get_results_so_far (ConvergenceTable (StatisticsMean rs n) res sp pd) h =
     Inr (fresh h,
          h\<lparr>row_at := (row_at h)(Suc (fresh h) := [PyFloat (rs / of_int n), PyInt pd]),
            list_at := (list_at h)(fresh h := list_at h res @ [Suc (fresh h)],
                                   Suc (Suc (fresh h)) := [Suc (fresh h)]),
            fresh := Suc (Suc (Suc (fresh h)))\<rparr>)"
  by (simp add: heap_defs fun_upd_twist)

lemma ceiling_double: "\<lceil>real_of_int sp * 2\<rceil> = sp * 2"
proof -
  have "real_of_int sp * 2 = of_int (sp * 2)" by simp
  then show ?thesis by (simp only: ceiling_of_int)
qed

lemma dump_table_mean:
  "res < fresh h \<Longrightarrow> n + 1 \<noteq> 0 \<Longrightarrow>
   dump_one_result (ConvergenceTable (StatisticsMean rs n) res sp pd) v h =
     Inr (if pd + 1 = sp
          then (ConvergenceTable (StatisticsMean (rs + v) (n + 1)) res (sp * 2) (pd + 1),
                h\<lparr>row_at := (row_at h)(fresh h := [PyFloat ((rs + v) / of_int (n + 1)), PyInt (pd + 1)]),
                  list_at := (list_at h)(Suc (fresh h) := [fresh h],
                                         res := list_at h res @ [fresh h]),
                  fresh := Suc (Suc (fresh h))\<rparr>)
          else (ConvergenceTable (StatisticsMean (rs + v) (n + 1)) res sp (pd + 1), h))"
  by (simp add: heap_defs ceiling_double)

lemma rows_of_append_fresh:
  assumes "\<forall>r\<in>set rs. r \<noteq> a"
  shows "map (f(a := x)) rs = map f rs"
  using assms by (induction rs) auto

lemma table_feed:
  assumes "res < fresh h" "\<forall>r\<in>set (list_at h res). r < fresh h" "0 \<le> pd"
  shows "\<exists>h'. dump_all vs (ConvergenceTable (StatisticsMean s pd) res sp pd) h =
           Inr (ConvergenceTable (StatisticsMean (s + sum_list vs) (pd + int (length vs))) res
                  (next_stop pd sp vs) (pd + int (length vs)), h')
         \<and> rows_of h' res = rows_of h res @ snapshots s pd sp vs
         \<and> res < fresh h' \<and> (\<forall>r\<in>set (list_at h' res). r < fresh h')"
  using assms
proof (induction vs arbitrary: s pd sp h)
  case Nil
  then show ?case by simp
next
  case (Cons v vs)
  have nz: "pd + 1 \<noteq> 0" using Cons.prems(3) by simp
  show ?case
  proof (cases "pd + 1 = sp")
    case True
    define h1 where "h1 = h\<lparr>row_at := (row_at h)(fresh h := [PyFloat ((s + v) / of_int (pd + 1)), PyInt (pd + 1)]),
                  list_at := (list_at h)(Suc (fresh h) := [fresh h],
                                         res := list_at h res @ [fresh h]),
                  fresh := Suc (Suc (fresh h))\<rparr>"
    have step: "dump_one_result (ConvergenceTable (StatisticsMean s pd) res sp pd) v h =
        Inr (ConvergenceTable (StatisticsMean (s + v) (pd + 1)) res (sp * 2) (pd + 1), h1)"
      using dump_table_mean[OF Cons.prems(1) nz, of s sp pd v] True by (simp add: h1_def)
    have a1: "res < fresh h1" using Cons.prems(1) by (simp add: h1_def)
    have a2: "\<forall>r\<in>set (list_at h1 res). r < fresh h1"
      using Cons.prems(2) by (auto simp: h1_def)
    have a3: "0 \<le> pd + 1" using Cons.prems(3) by simp
    have rows1: "rows_of h1 res = rows_of h res @ [[PyFloat ((s + v) / of_int (pd + 1)), PyInt (pd + 1)]]"
      using Cons.prems(2) by (auto simp: h1_def rows_of_def)
    from Cons.IH[OF a1 a2 a3, of "s + v" "sp * 2"] obtain h' where
      ih: "dump_all vs (ConvergenceTable (StatisticsMean (s + v) (pd + 1)) res (sp * 2) (pd + 1)) h1 =
           Inr (ConvergenceTable (StatisticsMean (s + v + sum_list vs) (pd + 1 + int (length vs))) res
                  (next_stop (pd + 1) (sp * 2) vs) (pd + 1 + int (length vs)), h')"
          "rows_of h' res = rows_of h1 res @ snapshots (s + v) (pd + 1) (sp * 2) vs"
          "res < fresh h'" "\<forall>r\<in>set (list_at h' res). r < fresh h'"
      by blast
    show ?thesis
      using step ih rows1 True by (simp add: add.assoc)
  next
    case False
    have step: "dump_one_result (ConvergenceTable (StatisticsMean s pd) res sp pd) v h =
        Inr (ConvergenceTable (StatisticsMean (s + v) (pd + 1)) res sp (pd + 1), h)"
      using dump_table_mean[OF Cons.prems(1) nz, of s sp pd v] False by simp
    have a3: "0 \<le> pd + 1" using Cons.prems(3) by simp
    from Cons.IH[OF Cons.prems(1) Cons.prems(2) a3, of "s + v" sp] obtain h' where
      ih: "dump_all vs (ConvergenceTable (StatisticsMean (s + v) (pd + 1)) res sp (pd + 1)) h =
           Inr (ConvergenceTable (StatisticsMean (s + v + sum_list vs) (pd + 1 + int (length vs))) res
                  (next_stop (pd + 1) sp vs) (pd + 1 + int (length vs)), h')"
          "rows_of h' res = rows_of h res @ snapshots (s + v) (pd + 1) sp vs"
          "res < fresh h'" "\<forall>r\<in>set (list_at h' res). r < fresh h'"
      by blast
    show ?thesis
      using step ih False by (simp add: add.assoc)
  qed
qed

lemma next_stop_bound:
  "pd < sp \<Longrightarrow> 0 \<le> pd \<Longrightarrow> pd + int (length vs) < next_stop pd sp vs"
proof (induction vs arbitrary: pd sp)
  case Nil
  then show ?case by simp
next
  case (Cons v vs)
  let ?sp' = "if pd + 1 = sp then sp * 2 else sp"
  have "pd + 1 < ?sp'" using Cons.prems by auto
  moreover have "0 \<le> pd + 1" using Cons.prems by simp
  ultimately have "pd + 1 + int (length vs) < next_stop (pd + 1) ?sp' vs"
    by (rule Cons.IH)
  then show ?case by simp
qed

lemma snapshots_rows:
  "row \<in> set (snapshots s pd sp vs) \<Longrightarrow>
     \<exists>x k. row = [PyFloat x, PyInt k] \<and> pd < k \<and> k \<le> pd + int (length vs)"
  by (induction vs arbitrary: s pd sp) (fastforce split: if_splits)+

lemma dump_all_mean:
  "dump_all rs (StatisticsMean s n) h =
     Inr (StatisticsMean (s + sum_list rs) (n + int (length rs)), h)"
  by (induction rs arbitrary: s n) (simp_all add: add.assoc)

section \<open>Lemmas on the simulation loop\<close>

lemma simulate_paths_feeds:
  assumes "list_all (\<lambda>z. rv * z \<le> exp_overflow_arg) (draws gauss n g)"
  shows "drop_rng (simulate_paths gauss opt ms rv d n gatherer g h) =
     dump_all (map (\<lambda>z. d * calc_pay_off opt (ms * exp (rv * z))) (draws gauss n g)) gatherer h"
  using assms
proof (induction n arbitrary: gatherer g h)
  case 0
  show ?case by (simp add: drop_rng_def)
next
  case (Suc n)
  obtain z g' where zg: "gauss g = (z, g')" by (cases "gauss g")
  from Suc.prems zg have inr: "rv * z \<le> exp_overflow_arg"
    and rest: "list_all (\<lambda>z. rv * z \<le> exp_overflow_arg) (draws gauss n g')"
    by simp_all
  have ex: "py_exp (rv * z) = Inr (exp (rv * z))" using inr by (simp add: py_exp_def)
  show ?case
  proof (cases "dump_one_result gatherer (d * calc_pay_off opt (ms * exp (rv * z))) h")
    case (Inl e)
    then show ?thesis using zg ex by (simp add: drop_rng_def)
  next
    case (Inr p)
    obtain st' h' where p: "p = (st', h')" by (cases p)
    show ?thesis using zg ex Inr p Suc.IH[OF rest, of st' h'] by simp
  qed
qed

lemma length_draws: "length (draws gauss n g) = n"
  by (induction n arbitrary: g) (auto split: prod.splits)

lemma length_fed_values: "length (fed_values opt spot vol r zs) = length zs"
  by (simp add: fed_values_def Let_def)

lemma option_price_feeds:
  assumes "0 \<le> integral_square vol 0 (expiry opt)"
    and "no_overflow opt vol r
           (draws gauss (nat number_of_paths) (case seed of None \<Rightarrow> g | Some s \<Rightarrow> seed_rng s))"
  shows "drop_rng (option_price seed_rng gauss opt spot vol r number_of_paths gatherer seed g h) =
     dump_all (fed_values opt spot vol r
              (draws gauss (nat number_of_paths) (case seed of None \<Rightarrow> g | Some s \<Rightarrow> seed_rng s)))
            gatherer h"
proof -
  let ?R = "integral r 0 (expiry opt)" and ?V = "integral_square vol 0 (expiry opt)"
  let ?zs = "draws gauss (nat number_of_paths) (case seed of None \<Rightarrow> g | Some s \<Rightarrow> seed_rng s)"
  from assms(2) have a: "?R + - 0.5 * ?V \<le> exp_overflow_arg" and b: "- ?R \<le> exp_overflow_arg"
    and c: "list_all (\<lambda>z. sqrt ?V * z \<le> exp_overflow_arg) ?zs"
    by (simp_all add: no_overflow_def)
  have e1: "py_exp (?R + - 0.5 * ?V) = Inr (exp (?R - ?V / 2))"
    using a by (simp add: py_exp_def)
  have e2: "py_exp (- ?R) = Inr (exp (- ?R))"
    using b by (simp add: py_exp_def)
  have "option_price seed_rng gauss opt spot vol r number_of_paths gatherer seed g h =
          simulate_paths gauss opt (spot * exp (?R - ?V / 2)) (sqrt ?V) (exp (- ?R))
            (nat number_of_paths) gatherer (case seed of None \<Rightarrow> g | Some s \<Rightarrow> seed_rng s) h"
    using assms(1) e1 e2 by (simp add: option_price_def py_sqrt_def get_expiry_def Let_def)
  then show ?thesis
    by (simp only: simulate_paths_feeds[OF c] fed_values_def Let_def)
qed

lemma option_price_negative_variance:
  assumes "integral_square vol 0 (expiry opt) < 0"
  shows "option_price seed_rng gauss opt spot vol r number_of_paths gatherer seed g h = Inl ValueError"
  using assms by (simp add: option_price_def py_sqrt_def get_expiry_def Let_def)

lemma option_price_overflow_before_loop:
  assumes "0 \<le> integral_square vol 0 (expiry opt)"
    and "integral r 0 (expiry opt) + - 0.5 * integral_square vol 0 (expiry opt) > exp_overflow_arg
         \<or> - integral r 0 (expiry opt) > exp_overflow_arg"
  shows "option_price seed_rng gauss opt spot vol r number_of_paths gatherer seed g h = Inl OverflowError"
  using assms
  by (auto simp: option_price_def py_sqrt_def py_exp_def get_expiry_def Let_def)

lemma option_price_simulates:
  assumes "0 \<le> integral_square vol 0 (expiry opt)"
    and "integral r 0 (expiry opt) + - 0.5 * integral_square vol 0 (expiry opt) \<le> exp_overflow_arg"
    and "- integral r 0 (expiry opt) \<le> exp_overflow_arg"
  shows "option_price seed_rng gauss opt spot vol r number_of_paths gatherer seed g h =
          simulate_paths gauss opt
            (spot * exp (integral r 0 (expiry opt) - integral_square vol 0 (expiry opt) / 2))
            (sqrt (integral_square vol 0 (expiry opt))) (exp (- integral r 0 (expiry opt)))
            (nat number_of_paths) gatherer (case seed of None \<Rightarrow> g | Some s \<Rightarrow> seed_rng s) h"
  using assms by (simp add: option_price_def py_sqrt_def py_exp_def get_expiry_def Let_def)

section \<open>Lemmas on a new table over a mean\<close>

lemma fresh_table_feed:
  "\<exists>h'. dump_all vs (fst (ConvergenceTable_init StatisticsMean_init h))
               (snd (ConvergenceTable_init StatisticsMean_init h)) =
           Inr (ConvergenceTable (StatisticsMean (sum_list vs) (int (length vs))) (fresh h)
                  (next_stop 0 2 vs) (int (length vs)), h')
         \<and> rows_of h' (fresh h) = snapshots 0 0 2 vs
         \<and> fresh h < fresh h' \<and> (\<forall>r\<in>set (list_at h' (fresh h)). r < fresh h')"
proof -
  define h0 where "h0 = h\<lparr>list_at := (list_at h)(fresh h := []), fresh := Suc (fresh h)\<rparr>"
  have a1: "fresh h < fresh h0" by (simp add: h0_def)
  have a2: "\<forall>r\<in>set (list_at h0 (fresh h)). r < fresh h0" by (simp add: h0_def)
  have r0: "rows_of h0 (fresh h) = []" by (simp add: h0_def rows_of_def)
  have init: "ConvergenceTable_init StatisticsMean_init h =
                (ConvergenceTable (StatisticsMean 0 0) (fresh h) 2 0, h0)"
    by (simp add: ConvergenceTable_init_def StatisticsMean_init_def alloc_list_def h0_def)
  from table_feed[OF a1 a2, of 0 vs 0 2] r0 init show ?thesis by simp
qed

lemma table_mean_view:
  assumes "n \<noteq> 0" "pd \<noteq> sp" "res < fresh h" "\<forall>r\<in>set (list_at h res). r < fresh h"
  shows "results_view (ConvergenceTable (StatisticsMean rs n) res sp pd) h =
           Inr (rows_of h res @ [[PyFloat (rs / of_int n), PyInt pd]])"
    and "last_row_value (ConvergenceTable (StatisticsMean rs n) res sp pd) h =
           Inr (PyFloat (rs / of_int n))"
proof -
  have m: "map ((row_at h)(Suc (fresh h) := x)) (list_at h res) = map (row_at h) (list_at h res)" for x
    using assms(4) by (intro rows_of_append_fresh) auto
  show "results_view (ConvergenceTable (StatisticsMean rs n) res sp pd) h =
           Inr (rows_of h res @ [[PyFloat (rs / of_int n), PyInt pd]])"
    using assms(3) by (simp add: results_view_def get_table_mean[OF assms(1,2)] rows_of_def m
        del: get_results_so_far.simps)
  show "last_row_value (ConvergenceTable (StatisticsMean rs n) res sp pd) h =
           Inr (PyFloat (rs / of_int n))"
    by (simp add: last_row_value_def get_table_mean[OF assms(1,2)] py_last_def py_index_def
        del: get_results_so_far.simps)
qed

lemma table_mean_query:
  assumes "n \<noteq> 0" "pd \<noteq> sp" "res < fresh h" "\<forall>r\<in>set (list_at h res). r < fresh h"
  shows "\<exists>h1. after_query (Inr (ConvergenceTable (StatisticsMean rs n) res sp pd, h)) =
                Inr (ConvergenceTable (StatisticsMean rs n) res sp pd, h1)
            \<and> rows_of h1 res = rows_of h res
            \<and> res < fresh h1 \<and> (\<forall>r\<in>set (list_at h1 res). r < fresh h1)"
proof -
  have m: "map ((row_at h)(Suc (fresh h) := x)) (list_at h res) = map (row_at h) (list_at h res)" for x
    using assms(4) by (intro rows_of_append_fresh) auto
  show ?thesis
    using assms(3,4)
    by (simp add: after_query_def get_table_mean[OF assms(1,2)] rows_of_def m less_Suc_eq
        del: get_results_so_far.simps)
qed

lemma table_mean_query_idempotent:
  assumes "n \<noteq> 0" "pd \<noteq> sp" "res < fresh h" "\<forall>r\<in>set (list_at h res). r < fresh h"
  shows "recorded_rows (after_query (Inr (ConvergenceTable (StatisticsMean rs n) res sp pd, h))) =
           recorded_rows (Inr (ConvergenceTable (StatisticsMean rs n) res sp pd, h))"
    and "returned_rows (after_query (Inr (ConvergenceTable (StatisticsMean rs n) res sp pd, h))) =
           returned_rows (Inr (ConvergenceTable (StatisticsMean rs n) res sp pd, h))"
proof -
  from table_mean_query[OF assms, of rs] obtain h1 where
    q: "after_query (Inr (ConvergenceTable (StatisticsMean rs n) res sp pd, h)) =
                Inr (ConvergenceTable (StatisticsMean rs n) res sp pd, h1)"
    and r: "rows_of h1 res = rows_of h res"
    and i: "res < fresh h1" "\<forall>r\<in>set (list_at h1 res). r < fresh h1"
    by blast
  show "recorded_rows (after_query (Inr (ConvergenceTable (StatisticsMean rs n) res sp pd, h))) =
           recorded_rows (Inr (ConvergenceTable (StatisticsMean rs n) res sp pd, h))"
    by (simp add: q r recorded_rows_def)
  show "returned_rows (after_query (Inr (ConvergenceTable (StatisticsMean rs n) res sp pd, h))) =
           returned_rows (Inr (ConvergenceTable (StatisticsMean rs n) res sp pd, h))"
    by (simp add: q r returned_rows_def table_mean_view(1)[OF assms] table_mean_view(1)[OF assms(1,2) i]
        del: get_results_so_far.simps)
qed

lemma dump_one_table_stop:
  assumes "dump_one_result (ConvergenceTable st res sp pd) v h = Inr (t, h')" "pd < sp" "0 < sp"
  shows "\<exists>st' sp'. t = ConvergenceTable st' res sp' (pd + 1) \<and> pd + 1 < sp' \<and> 0 < sp'"
  using assms
  by (auto simp: Let_def ceiling_double split: sum.splits prod.splits if_splits)

lemma dump_all_table_stop:
  assumes "dump_all vs (ConvergenceTable st res sp pd) h = Inr (t, h')" "pd < sp" "0 < sp"
  shows "paths_done t = pd + int (length vs) \<and> paths_done t < stopping_point t"
  using assms
proof (induction vs arbitrary: st sp pd h)
  case Nil
  then show ?case by auto
next
  case (Cons v vs)
  from Cons.prems(1) obtain t1 h1 where
    s1: "dump_one_result (ConvergenceTable st res sp pd) v h = Inr (t1, h1)"
    and s2: "dump_all vs t1 h1 = Inr (t, h')"
    by (auto simp del: dump_one_result.simps split: sum.splits)
  from dump_one_table_stop[OF s1 Cons.prems(2,3)] obtain st' sp' where
    t1: "t1 = ConvergenceTable st' res sp' (pd + 1)" and b: "pd + 1 < sp'" "0 < sp'"
    by blast
  from Cons.IH[OF s2[unfolded t1] b] show ?case by simp
qed

lemma content_fresh_table:
  "table_content (dump_all vs (fst (ConvergenceTable_init StatisticsMean_init h))
                    (snd (ConvergenceTable_init StatisticsMean_init h))) =
     Inr (snapshots 0 0 2 vs,
          if vs = [] then Inl ZeroDivisionError
          else Inr (snapshots 0 0 2 vs @
                    [[PyFloat (sum_list vs / real (length vs)), PyInt (int (length vs))]]))"
proof -
  from fresh_table_feed[of vs h] obtain h' where
    d: "dump_all vs (fst (ConvergenceTable_init StatisticsMean_init h))
               (snd (ConvergenceTable_init StatisticsMean_init h)) =
           Inr (ConvergenceTable (StatisticsMean (sum_list vs) (int (length vs))) (fresh h)
                  (next_stop 0 2 vs) (int (length vs)), h')"
    and r: "rows_of h' (fresh h) = snapshots 0 0 2 vs"
    and i: "fresh h < fresh h'" "\<forall>r\<in>set (list_at h' (fresh h)). r < fresh h'"
    by blast
  have ns: "int (length vs) \<noteq> next_stop 0 2 vs"
    using next_stop_bound[of 0 2 vs] by simp
  show ?thesis
  proof (cases "vs = []")
    case True
    then show ?thesis
      using d r by (simp add: table_content_def results_view_def heap_defs)
  next
    case False
    then have nz: "int (length vs) \<noteq> 0" by simp
    show ?thesis
      using False r
      by (simp add: d table_content_def table_mean_view(1)[OF nz ns i]
          del: get_results_so_far.simps)
  qed
qed

lemma variance_nonneg:
  "0 \<le> e \<Longrightarrow> 0 \<le> integral_square (ParametersConstant c) 0 (expiry (VanillaOption e po))"
  by (simp add: integral_square_def ParametersConstant_def VanillaOption_def)

lemma drop_rng_Inr:
  "drop_rng run = Inr (t, h) \<Longrightarrow> \<exists>g. run = Inr (t, g, h)"
  by (auto simp: drop_rng_def split: sum.splits)

lemma drop_rng_Inl:
  "drop_rng (Inl e) = Inl e"
  by (simp add: drop_rng_def)

text \<open>
  A table over a mean never fails on a result, so a simulation over it fails exactly when
  some path overflows, and otherwise feeds the value of every path.
\<close>

lemma dump_table_mean_step:
  assumes "res < fresh h" "\<forall>r\<in>set (list_at h res). r < fresh h" "0 \<le> pd"
  shows "\<exists>sp' h'. dump_one_result (ConvergenceTable (StatisticsMean s pd) res sp pd) v h =
            Inr (ConvergenceTable (StatisticsMean (s + v) (pd + 1)) res sp' (pd + 1), h')
          \<and> res < fresh h' \<and> (\<forall>r\<in>set (list_at h' res). r < fresh h') \<and> 0 \<le> pd + 1"
proof -
  from table_feed[OF assms, of "[v]" s sp] obtain h' where
    d: "dump_all [v] (ConvergenceTable (StatisticsMean s pd) res sp pd) h =
           Inr (ConvergenceTable (StatisticsMean (s + sum_list [v]) (pd + int (length [v]))) res
                  (next_stop pd sp [v]) (pd + int (length [v])), h')"
    and i: "res < fresh h'" "\<forall>r\<in>set (list_at h' res). r < fresh h'"
    by blast
  from d have "dump_one_result (ConvergenceTable (StatisticsMean s pd) res sp pd) v h =
      Inr (ConvergenceTable (StatisticsMean (s + v) (pd + 1)) res (next_stop pd sp [v]) (pd + 1), h')"
    by (auto simp del: dump_one_result.simps next_stop.simps split: sum.splits)
  with i assms(3) show ?thesis by auto
qed

lemma simulate_table_mean:
  assumes "res < fresh h" "\<forall>r\<in>set (list_at h res). r < fresh h" "0 \<le> pd"
  shows "drop_rng (simulate_paths gauss opt ms rv d n
                     (ConvergenceTable (StatisticsMean s pd) res sp pd) g h) =
     (if list_all (\<lambda>z. rv * z \<le> exp_overflow_arg) (draws gauss n g)
      then dump_all (map (\<lambda>z. d * calc_pay_off opt (ms * exp (rv * z))) (draws gauss n g))
             (ConvergenceTable (StatisticsMean s pd) res sp pd) h
      else Inl OverflowError)"
  using assms
proof (induction n arbitrary: s pd sp g h)
  case 0
  show ?case by (simp add: drop_rng_def)
next
  case (Suc n)
  obtain z g' where zg: "gauss g = (z, g')" by (cases "gauss g")
  show ?case
  proof (cases "rv * z \<le> exp_overflow_arg")
    case False
    then show ?thesis using zg by (simp add: py_exp_def drop_rng_def)
  next
    case True
    then have ex: "py_exp (rv * z) = Inr (exp (rv * z))" by (simp add: py_exp_def)
    let ?v = "d * calc_pay_off opt (ms * exp (rv * z))"
    from dump_table_mean_step[OF Suc.prems, of s sp ?v] obtain sp' h' where
      st: "dump_one_result (ConvergenceTable (StatisticsMean s pd) res sp pd) ?v h =
            Inr (ConvergenceTable (StatisticsMean (s + ?v) (pd + 1)) res sp' (pd + 1), h')"
      and i: "res < fresh h'" "\<forall>r\<in>set (list_at h' res). r < fresh h'" "0 \<le> pd + 1"
      by blast
    show ?thesis
      using zg ex st True Suc.IH[OF i, of "s + ?v" sp' g']
      by (simp del: dump_one_result.simps)
  qed
qed

text \<open>The content of the table after a pricing run over a new table, for any payoff.\<close>

lemma priced_table_content:
  "table_content (drop_rng (option_price seed_rng gauss opt spot vol r n
       (fst (ConvergenceTable_init StatisticsMean_init h)) seed g
       (snd (ConvergenceTable_init StatisticsMean_init h)))) =
     (if integral_square vol 0 (expiry opt) < 0 then Inl ValueError
      else if no_overflow opt vol r
                (draws gauss (nat n) (case seed of None \<Rightarrow> g | Some s \<Rightarrow> seed_rng s))
      then table_content (dump_all
             (fed_values opt spot vol r
                (draws gauss (nat n) (case seed of None \<Rightarrow> g | Some s \<Rightarrow> seed_rng s)))
             (fst (ConvergenceTable_init StatisticsMean_init empty_heap))
             (snd (ConvergenceTable_init StatisticsMean_init empty_heap)))
      else Inl OverflowError)"
proof (cases "integral_square vol 0 (expiry opt) < 0")
  case True
  then show ?thesis
    by (simp add: option_price_negative_variance drop_rng_Inl table_content_def)
next
  case False
  then have v: "0 \<le> integral_square vol 0 (expiry opt)" by simp
  let ?R = "integral r 0 (expiry opt)" and ?V = "integral_square vol 0 (expiry opt)"
  let ?zs = "draws gauss (nat n) (case seed of None \<Rightarrow> g | Some s \<Rightarrow> seed_rng s)"
  show ?thesis
  proof (cases "no_overflow opt vol r ?zs")
    case True
    show ?thesis
      using False True by (simp only: option_price_feeds[OF v True] content_fresh_table if_False if_True)
  next
    case no: False
    have "drop_rng (option_price seed_rng gauss opt spot vol r n
       (fst (ConvergenceTable_init StatisticsMean_init h)) seed g
       (snd (ConvergenceTable_init StatisticsMean_init h))) = Inl OverflowError"
    proof (cases "?R + - 0.5 * ?V \<le> exp_overflow_arg \<and> - ?R \<le> exp_overflow_arg")
      case False
      then have ov: "?R + - 0.5 * ?V > exp_overflow_arg \<or> - ?R > exp_overflow_arg" by auto
      show ?thesis
        by (simp only: option_price_overflow_before_loop[OF v ov] drop_rng_Inl)
    next
      case True
      then have a: "?R + - 0.5 * ?V \<le> exp_overflow_arg" and b: "- ?R \<le> exp_overflow_arg"
        by simp_all
      from no a b have c: "\<not> list_all (\<lambda>z. sqrt ?V * z \<le> exp_overflow_arg) ?zs"
        by (simp add: no_overflow_def)
      have i: "fst (ConvergenceTable_init StatisticsMean_init h) =
                 ConvergenceTable (StatisticsMean 0 0) (fresh h) 2 0"
        by (simp add: ConvergenceTable_init_def StatisticsMean_init_def alloc_list_def)
      have f1: "fresh h < fresh (snd (ConvergenceTable_init StatisticsMean_init h))"
        by (simp add: ConvergenceTable_init_def alloc_list_def)
      have f2: "\<forall>r\<in>set (list_at (snd (ConvergenceTable_init StatisticsMean_init h)) (fresh h)).
                  r < fresh (snd (ConvergenceTable_init StatisticsMean_init h))"
        by (simp add: ConvergenceTable_init_def alloc_list_def)
      show ?thesis
        unfolding option_price_simulates[OF v a b] i
        using simulate_table_mean[OF f1 f2, of 0 gauss opt _ "sqrt ?V" _ "nat n" 0 2] c
        by simp
    qed
    then show ?thesis using False no by (simp add: table_content_def)
  qed
qed

lemma priced_last_row:
  assumes "0 < n" "0 \<le> e"
    and "no_overflow (VanillaOption e po) (ParametersConstant vol) (ParametersConstant r)
           (draws gauss (nat n) (case seed of None \<Rightarrow> g | Some s \<Rightarrow> seed_rng s))"
  shows "\<exists>t g' h'.
           option_price seed_rng gauss (VanillaOption e po) spot (ParametersConstant vol)
             (ParametersConstant r) n (fst (ConvergenceTable_init StatisticsMean_init h)) seed g
             (snd (ConvergenceTable_init StatisticsMean_init h)) = Inr (t, g', h')
         \<and> rows_of h' (results_so_far t) =
             snapshots 0 0 2 (fed_values (VanillaOption e po) spot (ParametersConstant vol)
               (ParametersConstant r)
               (draws gauss (nat n) (case seed of None \<Rightarrow> g | Some s \<Rightarrow> seed_rng s)))
         \<and> results_view t h' =
             Inr (rows_of h' (results_so_far t) @
                  [[PyFloat (sum_list (fed_values (VanillaOption e po) spot (ParametersConstant vol)
                       (ParametersConstant r)
                       (draws gauss (nat n) (case seed of None \<Rightarrow> g | Some s \<Rightarrow> seed_rng s)))
                     / of_int n), PyInt n]])
         \<and> last_row_value t h' =
             Inr (PyFloat (sum_list (fed_values (VanillaOption e po) spot (ParametersConstant vol)
                       (ParametersConstant r)
                       (draws gauss (nat n) (case seed of None \<Rightarrow> g | Some s \<Rightarrow> seed_rng s)))
                     / of_int n))"
proof -
  define fed where "fed = fed_values (VanillaOption e po) spot (ParametersConstant vol)
     (ParametersConstant r) (draws gauss (nat n) (case seed of None \<Rightarrow> g | Some s \<Rightarrow> seed_rng s))"
  define t where "t = ConvergenceTable (StatisticsMean (sum_list fed) (int (length fed))) (fresh h)
                  (next_stop 0 2 fed) (int (length fed))"
  have len: "int (length fed) = n"
    using assms(1) by (simp add: fed_def length_fed_values length_draws)
  have v: "0 \<le> integral_square (ParametersConstant vol) 0 (expiry (VanillaOption e po))"
    using assms(2) by (rule variance_nonneg)
  from fresh_table_feed[of fed h] obtain h' where
    d: "dump_all fed (fst (ConvergenceTable_init StatisticsMean_init h))
               (snd (ConvergenceTable_init StatisticsMean_init h)) = Inr (t, h')"
    and r: "rows_of h' (fresh h) = snapshots 0 0 2 fed"
    and i: "fresh h < fresh h'" "\<forall>r\<in>set (list_at h' (fresh h)). r < fresh h'"
    unfolding t_def by blast
  have "drop_rng (option_price seed_rng gauss (VanillaOption e po) spot (ParametersConstant vol)
             (ParametersConstant r) n (fst (ConvergenceTable_init StatisticsMean_init h)) seed g
             (snd (ConvergenceTable_init StatisticsMean_init h))) = Inr (t, h')"
    using d unfolding fed_def by (simp only: option_price_feeds[OF v assms(3)])
  then obtain g' where
    run: "option_price seed_rng gauss (VanillaOption e po) spot (ParametersConstant vol)
             (ParametersConstant r) n (fst (ConvergenceTable_init StatisticsMean_init h)) seed g
             (snd (ConvergenceTable_init StatisticsMean_init h)) = Inr (t, g', h')"
    using drop_rng_Inr by blast
  have ns: "int (length fed) \<noteq> next_stop 0 2 fed"
    using next_stop_bound[of 0 2 fed] by simp
  have nz: "int (length fed) \<noteq> 0" using len assms(1) by simp
  have rs: "results_so_far t = fresh h" by (simp add: t_def)
  have view: "results_view t h' =
      Inr (rows_of h' (results_so_far t) @ [[PyFloat (sum_list fed / of_int n), PyInt n]])"
    using table_mean_view(1)[OF nz ns i, of "sum_list fed"] len
    by (simp add: t_def)
  have lrv: "last_row_value t h' = Inr (PyFloat (sum_list fed / of_int n))"
    using table_mean_view(2)[OF nz ns i, of "sum_list fed"] len by (simp add: t_def)
  show ?thesis
    using run view lrv r rs unfolding fed_def[symmetric]
    by (intro exI[of _ t] exI[of _ g'] exI[of _ h']) simp
qed

lemma snapshots_paths_used:
  assumes "row \<in> set (snapshots s pd sp vs)"
  shows "\<exists>k. paths_used row = Some k \<and> pd < k \<and> k \<le> pd + int (length vs)"
  using snapshots_rows[OF assms] by auto

lemmas run_defs = mean_table_fed_def nested_table_fed_def ConvergenceTable_init_def
  StatisticsMean_init_def empty_heap_def returned_rows_def recorded_rows_def after_query_def
  results_view_def rows_of_def

section \<open>The stopping points are the powers of two\<close>

lemma snapshots_snoc:
  "snapshots s pd sp (vs @ [v]) =
     snapshots s pd sp vs @
       (if pd + int (length vs) + 1 = next_stop pd sp vs
        then [[PyFloat ((s + sum_list vs + v) / of_int (pd + int (length vs) + 1)),
               PyInt (pd + int (length vs) + 1)]]
        else [])"
proof (induction vs arbitrary: s pd sp)
  case Nil
  show ?case by simp
next
  case (Cons w ws)
  have a: "pd + int (length (w # ws)) + 1 = pd + 1 + int (length ws) + 1" by simp
  have b: "s + sum_list (w # ws) + v = s + w + sum_list ws + v" by simp
  show ?case
  proof (cases "pd + 1 = sp")
    case True
    have n: "next_stop pd sp (w # ws) = next_stop (pd + 1) (sp * 2) ws" using True by simp
    have "snapshots s pd sp ((w # ws) @ [v]) =
            [PyFloat ((s + w) / of_int (pd + 1)), PyInt (pd + 1)] # snapshots (s + w) (pd + 1) (sp * 2) (ws @ [v])"
      using True by simp
    moreover have "snapshots s pd sp (w # ws) =
            [PyFloat ((s + w) / of_int (pd + 1)), PyInt (pd + 1)] # snapshots (s + w) (pd + 1) (sp * 2) ws"
      using True by simp
    ultimately show ?thesis
      unfolding a b n Cons.IH[of "s + w" "pd + 1" "sp * 2"] by (simp only: append_Cons)
  next
    case False
    have n: "next_stop pd sp (w # ws) = next_stop (pd + 1) sp ws" using False by simp
    have "snapshots s pd sp ((w # ws) @ [v]) = snapshots (s + w) (pd + 1) sp (ws @ [v])"
      using False by simp
    moreover have "snapshots s pd sp (w # ws) = snapshots (s + w) (pd + 1) sp ws"
      using False by simp
    ultimately show ?thesis
      unfolding a b n Cons.IH[of "s + w" "pd + 1" sp] by (simp only:)
  qed
qed


lemma next_stop_power:
  assumes "sp = 2 ^ j" "1 \<le> j" "0 \<le> pd" "pd < sp" "sp \<le> max 2 (2 * pd)"
  shows "\<exists>j'. next_stop pd sp vs = 2 ^ j' \<and> 1 \<le> j'
            \<and> next_stop pd sp vs \<le> max 2 (2 * (pd + int (length vs)))"
  using assms
proof (induction vs arbitrary: pd sp j)
  case Nil
  then show ?case by auto
next
  case (Cons v vs)
  have len: "pd + int (length (v # vs)) = pd + 1 + int (length vs)" by simp
  show ?case
  proof (cases "pd + 1 = sp")
    case True
    have n: "next_stop pd sp (v # vs) = next_stop (pd + 1) (sp * 2) vs" using True by simp
    have "\<exists>j'. next_stop (pd + 1) (sp * 2) vs = 2 ^ j' \<and> 1 \<le> j'
            \<and> next_stop (pd + 1) (sp * 2) vs \<le> max 2 (2 * (pd + 1 + int (length vs)))"
    proof (rule Cons.IH[of "sp * 2" "Suc j" "pd + 1"])
      show "sp * 2 = 2 ^ Suc j" using Cons.prems(1) by simp
      show "1 \<le> Suc j" by simp
      show "0 \<le> pd + 1" using Cons.prems(3) by simp
      show "pd + 1 < sp * 2" using True Cons.prems(3) by simp
      show "sp * 2 \<le> max 2 (2 * (pd + 1))" using True by simp
    qed
    then show ?thesis unfolding n len .
  next
    case False
    have n: "next_stop pd sp (v # vs) = next_stop (pd + 1) sp vs" using False by simp
    have "\<exists>j'. next_stop (pd + 1) sp vs = 2 ^ j' \<and> 1 \<le> j'
            \<and> next_stop (pd + 1) sp vs \<le> max 2 (2 * (pd + 1 + int (length vs)))"
    proof (rule Cons.IH[of sp j "pd + 1"])
      show "sp = 2 ^ j" by (rule Cons.prems(1))
      show "1 \<le> j" by (rule Cons.prems(2))
      show "0 \<le> pd + 1" using Cons.prems(3) by simp
      show "pd + 1 < sp" using False Cons.prems(4) by simp
      show "sp \<le> max 2 (2 * (pd + 1))" using Cons.prems(5) by auto
    qed
    then show ?thesis unfolding n len .
  qed
qed

lemma next_stop_before_doubling_point:
  assumes "int (length vs) + 1 = 2 ^ Suc k"
  shows "next_stop 0 2 vs = 2 ^ Suc k"
proof -
  define N :: int where "N = 2 ^ Suc k"
  have lenN: "int (length vs) = N - 1" using assms by (simp add: N_def)
  from next_stop_power[of 2 1 0 vs] obtain j' where
    p: "next_stop 0 2 vs = 2 ^ j'" and j1: "1 \<le> j'"
    and u: "next_stop 0 2 vs \<le> max 2 (2 * int (length vs))"
    by auto
  have l: "int (length vs) < next_stop 0 2 vs"
    using next_stop_bound[of 0 2 vs] by simp
  have "N \<le> 2 ^ j'" using l p lenN by simp
  then have "(2::int) ^ Suc k \<le> 2 ^ j'" by (simp only: N_def)
  then have ge: "Suc k \<le> j'" by (rule power_le_imp_le_exp[rotated]) simp
  have N2: "2 \<le> N" unfolding N_def by (simp add: self_le_power)
  have "max 2 (2 * int (length vs)) \<le> 2 * N - 2" using lenN N2 by simp
  then have "(2::int) ^ j' < 2 * N" using u p by linarith
  then have "(2::int) ^ j' < 2 ^ Suc (Suc k)" by (simp add: N_def)
  then have "j' < Suc (Suc k)" by (rule power_less_imp_less_exp[rotated]) simp
  with ge have "j' = Suc k" by simp
  with p show ?thesis by simp
qed

text \<open>
  At every doubling point \<open>N = 2, 4, 8, ...\<close> the rows returned by a table over a mean end
  with two rows for the same path count \<open>N\<close>.
\<close>

lemma doubling_point_last_rows:
  assumes "int (length vs) = 2 ^ Suc k"
  shows "\<exists>rows x. returned_rows (mean_table_fed vs) =
           Inr (rows @ [[PyFloat x, PyInt (int (length vs))], [PyFloat x, PyInt (int (length vs))]])"
proof -
  from assms have ne: "vs \<noteq> []" by auto
  then obtain ws v where vs: "vs = ws @ [v]" by (meson rev_exhaust)
  have l: "int (length ws) + 1 = 2 ^ Suc k" using assms vs by simp
  have st: "0 + int (length ws) + 1 = next_stop 0 2 ws"
    using next_stop_before_doubling_point[OF l] l by simp
  define x where "x = (0 + sum_list ws + v) / real_of_int (0 + int (length ws) + 1)"
  have sn: "snapshots 0 0 2 vs =
          snapshots 0 0 2 ws @ [[PyFloat x, PyInt (0 + int (length ws) + 1)]]"
    unfolding vs snapshots_snoc x_def using st by simp
  have x': "sum_list vs / real (length vs) = x"
    by (simp add: x_def vs add.commute)
  have len': "int (length vs) = 0 + int (length ws) + 1" by (simp add: vs)
  have c: "table_content (mean_table_fed vs) =
     Inr (snapshots 0 0 2 vs,
          Inr (snapshots 0 0 2 vs @
                    [[PyFloat (sum_list vs / real (length vs)), PyInt (int (length vs))]]))"
    using content_fresh_table[of vs empty_heap] ne
    by (simp add: mean_table_fed_def split_beta)
  have "returned_rows (mean_table_fed vs) =
          Inr (snapshots 0 0 2 vs @ [[PyFloat (sum_list vs / real (length vs)), PyInt (int (length vs))]])"
    using c by (auto simp: table_content_def returned_rows_def split: sum.splits)
  then have "returned_rows (mean_table_fed vs) =
          Inr (snapshots 0 0 2 ws @ [[PyFloat x, PyInt (int (length vs))], [PyFloat x, PyInt (int (length vs))]])"
    unfolding sn x' len'[symmetric] by simp
  then show ?thesis by blast
qed

section \<open>The properties\<close>

text \<open>
  C4. After the results \<open>r1..rn\<close>, \<open>n \<ge> 1\<close>, have been fed to a new \<^verbatim>\<open>StatisticsMean\<close> by
  \<^verbatim>\<open>dump_one_result\<close>, its \<open>running_sum\<close> is \<open>r1 + ... + rn\<close>, its \<open>paths_done\<close> is \<open>n\<close>, and
  \<^verbatim>\<open>get_results_so_far()\<close> returns the single row holding the arithmetic mean
  \<open>(r1 + ... + rn) / n\<close>.
\<close>

theorem mean_accumulator_correct:
  assumes "rs \<noteq> []"
  shows "dump_all rs StatisticsMean_init h =
           Inr (StatisticsMean (sum_list rs) (int (length rs)), h)
       \<and> running_sum (StatisticsMean (sum_list rs) (int (length rs))) = sum_list rs
       \<and> paths_done (StatisticsMean (sum_list rs) (int (length rs))) = int (length rs)
       \<and> results_view (StatisticsMean (sum_list rs) (int (length rs))) h =
           Inr [[PyFloat (sum_list rs / real (length rs))]]"
  using assms
  by (simp add: dump_all_mean StatisticsMean_init_def results_view_def heap_defs rows_of_def)

theorem mean_accumulator_correct_witness:
  "[1, 3, 8] \<noteq> ([] :: real list)
   \<and> dump_all [1, 3, 8] StatisticsMean_init empty_heap = Inr (StatisticsMean 12 3, empty_heap)
   \<and> results_view (StatisticsMean 12 3) empty_heap = Inr [[PyFloat 4]]"
  using mean_accumulator_correct [of "[1, 3, 8]" empty_heap] by simp

text \<open>
  C6, as the code has it. For \<open>lower < upper\<close> and every spot that is a number, the
  double-digital payoff is \<open>1\<close> when the spot lies strictly between the two levels and
  \<open>0\<close> otherwise; it is \<open>0\<close> at \<open>lower\<close> and at \<open>upper\<close>. For a NaN spot both
  comparisons of \<^verbatim>\<open>calc\<close> are false and the payoff is \<open>1\<close>.
\<close>

theorem double_digital_payoff:
  assumes "lower < upper"
  shows "calc_float (PayOffDoubleDigital lower upper) (Num spot) =
           Num (if lower < spot \<and> spot < upper then 1 else 0)
       \<and> calc (PayOffDoubleDigital lower upper) spot = (if lower < spot \<and> spot < upper then 1 else 0)
       \<and> calc_float (PayOffDoubleDigital lower upper) (Num lower) = Num 0
       \<and> calc_float (PayOffDoubleDigital lower upper) (Num upper) = Num 0
       \<and> calc_float (PayOffDoubleDigital lower upper) NaN = Num 1"
  using assms by auto

text \<open>C6, as the code has it, for the levels 1 and 3 and the spot 2.\<close>

theorem double_digital_payoff_witness:
  "(1::real) < 3
   \<and> calc_float (PayOffDoubleDigital 1 3) (Num 2) = Num 1
   \<and> calc_float (PayOffDoubleDigital 1 3) (Num 1) = Num 0
   \<and> calc_float (PayOffDoubleDigital 1 3) (Num 3) = Num 0
   \<and> calc_float (PayOffDoubleDigital 1 3) NaN = Num 1"
  using double_digital_payoff [of 1 3 2] by simp

text \<open>
  C6, as the claim states it, fails for the levels 1 and 3 at a NaN spot: the spot is not
  strictly between the levels, and the payoff is \<open>1\<close>.
\<close>

theorem double_digital_nan_pays_one:
  "calc_float (PayOffDoubleDigital 1 3) NaN = Num 1
   \<and> \<not> (py_lt (Num 1) NaN \<and> py_lt NaN (Num 3))"
  by simp

text \<open>
  C7, as the code has it. \<^verbatim>\<open>get_results_so_far()\<close> on a \<^verbatim>\<open>StatisticsMean\<close> with
  \<open>paths_done = 0\<close> returns no value: the division \<^verbatim>\<open>running_sum / paths_done\<close> raises
  Python's \<^verbatim>\<open>ZeroDivisionError\<close>, whatever the running sum is. The failure is the
  language's, not a dedicated "no data" error.
\<close>

theorem empty_mean_raises_zero_division:
  "get_results_so_far (StatisticsMean rs 0) h = Inl ZeroDivisionError
   \<and> results_view (StatisticsMean rs 0) h = Inl ZeroDivisionError"
  by (simp add: results_view_def)

text \<open>
  C7, as the claim states it, fails on a new \<^verbatim>\<open>StatisticsMean()\<close>: the exception raised is
  \<^verbatim>\<open>ZeroDivisionError\<close> and not an explicit "no data" error.
\<close>

theorem empty_mean_not_no_data_error:
  "get_results_so_far StatisticsMean_init empty_heap = Inl ZeroDivisionError
   \<and> get_results_so_far StatisticsMean_init empty_heap \<noteq> Inl NoDataError"
  by (simp add: StatisticsMean_init_def)

text \<open>
  C2, as the code has it. For a number of paths \<open>N > 0\<close>, a variance \<open>V \<ge> 0\<close> and no
  overflow in \<^verbatim>\<open>math.exp\<close> (the arguments \<open>R - V / 2\<close>, \<open>- R\<close> and every
  \<open>sqrt V * z\<^sub>i\<close> are at most 709.782712893384), \<^verbatim>\<open>Simulation.option_price\<close> leaves the
  gatherer in the state reached by feeding it exactly \<open>N\<close> values in order, the \<open>i\<close>-th
  being \<open>exp (- R) * payoff (spot * exp (R - V / 2) * exp (sqrt V * z\<^sub>i))\<close> with
  \<open>R = rate.integral(0, expiry)\<close>, \<open>V = vol.integral_square(0, expiry)\<close> and \<open>z\<^sub>i\<close> the
  \<open>i\<close>-th draw of the generator (seeded first when a seed is given).
\<close>

theorem option_price_fed_values:
  assumes "0 < number_of_paths" and "0 \<le> integral_square vol 0 (expiry opt)"
    and "no_overflow opt vol r
           (draws gauss (nat number_of_paths) (case seed of None \<Rightarrow> g | Some s \<Rightarrow> seed_rng s))"
  shows "let R = integral r 0 (expiry opt);
             V = integral_square vol 0 (expiry opt);
             g0 = (case seed of None \<Rightarrow> g | Some s \<Rightarrow> seed_rng s);
             zs = draws gauss (nat number_of_paths) g0;
             fed = fed_values opt spot vol r zs
         in length zs = nat number_of_paths
          \<and> length fed = nat number_of_paths
          \<and> (\<forall>i < nat number_of_paths.
                fed ! i = exp (- R) * calc (pay_off opt) (spot * exp (R - V / 2) * exp (sqrt V * (zs ! i))))
          \<and> drop_rng (option_price seed_rng gauss opt spot vol r number_of_paths gatherer seed g h) =
              dump_all fed gatherer h"
proof -
  have "drop_rng (option_price seed_rng gauss opt spot vol r number_of_paths gatherer seed g h) =
        dump_all (fed_values opt spot vol r
              (draws gauss (nat number_of_paths) (case seed of None \<Rightarrow> g | Some s \<Rightarrow> seed_rng s))) gatherer h"
    by (rule option_price_feeds[OF assms(2,3)])
  then show ?thesis
    by (simp add: Let_def length_draws fed_values_def calc_pay_off_def)
qed

text \<open>C2, as the code has it, at two paths, seed 5, with the sample generator: the draws are 5 and 6.\<close>

theorem option_price_fed_values_witness:
  "(0::int) < 2 \<and> 0 \<le> integral_square (ParametersConstant 1) 0 (expiry (VanillaOption 1 (PayOffCall 0)))
   \<and> no_overflow (VanillaOption 1 (PayOffCall 0)) (ParametersConstant 1) (ParametersConstant 0) [5, 6]
   \<and> draws counter_gauss (nat 2) (counter_seed 5) = [5, 6]
   \<and> drop_rng (option_price counter_seed counter_gauss (VanillaOption 1 (PayOffCall 0)) 1
         (ParametersConstant 1) (ParametersConstant 0) 2 StatisticsMean_init (Some 5) 0 empty_heap) =
       dump_all (fed_values (VanillaOption 1 (PayOffCall 0)) 1 (ParametersConstant 1) (ParametersConstant 0) [5, 6])
         StatisticsMean_init empty_heap"
proof -
  have d: "draws counter_gauss (nat 2) (counter_seed 5) = [5, 6]"
    by (simp add: counter_gauss_def counter_seed_def numeral_2_eq_2)
  have v: "0 \<le> integral_square (ParametersConstant 1) 0 (expiry (VanillaOption 1 (PayOffCall 0)))"
    by (simp add: integral_square_def ParametersConstant_def VanillaOption_def)
  have n: "no_overflow (VanillaOption 1 (PayOffCall 0)) (ParametersConstant 1) (ParametersConstant 0) [5, 6]"
    by (simp add: no_overflow_def integral_square_def integral_def ParametersConstant_def
        VanillaOption_def exp_overflow_arg_def)
  have n': "no_overflow (VanillaOption 1 (PayOffCall 0)) (ParametersConstant 1) (ParametersConstant 0)
              (draws counter_gauss (nat 2) (case Some 5 of None \<Rightarrow> 0 | Some s \<Rightarrow> counter_seed s))"
    using n d by simp
  have p: "(0::int) < 2" by simp
  show ?thesis
    using option_price_fed_values [OF p v n', where spot = 1 and gatherer = StatisticsMean_init
        and h = empty_heap] d v n
    by (simp add: Let_def)
qed

text \<open>
  C2, as the claim states it, fails. With the expiry \<open>- 1\<close> and the volatility 1 the
  variance is negative, \<^verbatim>\<open>math.sqrt\<close> raises \<^verbatim>\<open>ValueError\<close> and nothing is fed. With the
  rate 1000 and the expiry 1, \<^verbatim>\<open>math.exp\<close> raises \<^verbatim>\<open>OverflowError\<close> before the loop.
\<close>

theorem option_price_raises_before_feeding:
  "option_price counter_seed counter_gauss (VanillaOption (- 1) (PayOffCall 0)) 1
         (ParametersConstant 1) (ParametersConstant 0) 2 StatisticsMean_init (Some 5) 0 empty_heap =
     Inl ValueError
 \<and> option_price counter_seed counter_gauss (VanillaOption 1 (PayOffCall 0)) 1
         (ParametersConstant 1) (ParametersConstant 1000) 3 StatisticsMean_init (Some 5) 0 empty_heap =
     Inl OverflowError"
  by (simp add: option_price_def py_sqrt_def py_exp_def get_expiry_def integral_square_def
      integral_def ParametersConstant_def VanillaOption_def exp_overflow_arg_def Let_def)

text \<open>
  C8, as the code has it. For \<open>number_of_paths \<le> 0\<close>, a variance \<open>V \<ge> 0\<close> and no
  overflow in the two calls of \<^verbatim>\<open>math.exp\<close> before the loop, \<^verbatim>\<open>Simulation.option_price\<close>
  checks nothing: \<^verbatim>\<open>range(number_of_paths)\<close> is empty, the loop runs zero times and the call
  returns normally, the gatherer and the store unchanged and the generator only seeded.
\<close>

theorem option_price_nonpositive_paths:
  assumes "number_of_paths \<le> 0" and "0 \<le> integral_square vol 0 (expiry opt)"
    and "no_overflow opt vol r []"
  shows "option_price seed_rng gauss opt spot vol r number_of_paths gatherer seed g h =
           Inr (gatherer, (case seed of None \<Rightarrow> g | Some s \<Rightarrow> seed_rng s), h)"
  using assms
  by (simp add: option_price_def py_sqrt_def py_exp_def get_expiry_def no_overflow_def Let_def)

text \<open>C8, as the code has it, at \<open>number_of_paths = - 3\<close>.\<close>

theorem option_price_nonpositive_paths_witness:
  "(- 3 :: int) \<le> 0
   \<and> 0 \<le> integral_square (ParametersConstant 1) 0 (expiry (VanillaOption 1 (PayOffCall 15)))
   \<and> no_overflow (VanillaOption 1 (PayOffCall 15)) (ParametersConstant 1) (ParametersConstant 0) []
   \<and> option_price counter_seed counter_gauss (VanillaOption 1 (PayOffCall 15)) 30
        (ParametersConstant 1) (ParametersConstant 0) (- 3) StatisticsMean_init (Some 7) 0 empty_heap =
      Inr (StatisticsMean_init, counter_seed 7, empty_heap)"
proof -
  have p: "(- 3 :: int) \<le> 0" by simp
  have v: "0 \<le> integral_square (ParametersConstant 1) 0 (expiry (VanillaOption 1 (PayOffCall 15)))"
    by (simp add: integral_square_def ParametersConstant_def VanillaOption_def)
  have n: "no_overflow (VanillaOption 1 (PayOffCall 15)) (ParametersConstant 1) (ParametersConstant 0) []"
    by (simp add: no_overflow_def integral_square_def integral_def ParametersConstant_def
        VanillaOption_def exp_overflow_arg_def)
  from option_price_nonpositive_paths [OF p v n, where seed_rng = counter_seed and gauss = counter_gauss
      and spot = 30 and gatherer = StatisticsMean_init
      and seed = "Some 7" and g = 0 and h = empty_heap]
  show ?thesis using p v n by simp
qed

text \<open>
  C8, as the claim states it, fails: with \<open>number_of_paths\<close> \<open>0\<close> or \<open>- 3\<close> the call does
  not fail, it returns with a gatherer that was fed nothing.
\<close>

theorem zero_paths_runs_silently:
  "option_price counter_seed counter_gauss (VanillaOption 1 (PayOffCall 15)) 30
        (ParametersConstant 1) (ParametersConstant 0) 0 StatisticsMean_init (Some 7) 0 empty_heap =
      Inr (StatisticsMean_init, 7, empty_heap)
 \<and> option_price counter_seed counter_gauss (VanillaOption 1 (PayOffCall 15)) 30
        (ParametersConstant 1) (ParametersConstant 0) (- 3) StatisticsMean_init (Some 7) 0 empty_heap =
      Inr (StatisticsMean_init, 7, empty_heap)"
  by (simp add: option_price_def py_sqrt_def py_exp_def get_expiry_def integral_square_def
      integral_def ParametersConstant_def VanillaOption_def counter_seed_def exp_overflow_arg_def Let_def)

text \<open>
  C10, as the code has it. After a new table, over any gatherer, has been fed any number of
  results without an exception, \<open>paths_done\<close> is the number of results and is below
  \<open>stopping_point\<close>, so the live-row branch of \<^verbatim>\<open>get_results_so_far\<close> is always taken. For
  a table over a \<^verbatim>\<open>StatisticsMean\<close> feeding never fails; once at least one result has been
  fed, the returned rows are the recorded rows plus exactly one row, the mean tagged with
  \<open>paths_done\<close>; with no result fed, the live-row branch raises \<^verbatim>\<open>ZeroDivisionError\<close>.
\<close>

theorem table_stop_invariant_and_live_row:
  "(\<forall>st t h'. dump_all vs (fst (ConvergenceTable_init st h)) (snd (ConvergenceTable_init st h)) = Inr (t, h')
        \<longrightarrow> paths_done t = int (length vs) \<and> paths_done t < stopping_point t)
 \<and> (\<exists>t h'. dump_all vs (fst (ConvergenceTable_init StatisticsMean_init h))
                 (snd (ConvergenceTable_init StatisticsMean_init h)) = Inr (t, h')
        \<and> (vs \<noteq> [] \<longrightarrow>
             results_view t h' =
               Inr (rows_of h' (results_so_far t) @
                    [[PyFloat (sum_list vs / real (length vs)), PyInt (paths_done t)]]))
        \<and> (vs = [] \<longrightarrow> results_view t h' = Inl ZeroDivisionError))"
proof (intro conjI allI impI)
  fix st t h'
  assume a: "dump_all vs (fst (ConvergenceTable_init st h)) (snd (ConvergenceTable_init st h)) = Inr (t, h')"
  have i: "fst (ConvergenceTable_init st h) = ConvergenceTable st (fresh h) 2 0"
    by (simp add: ConvergenceTable_init_def alloc_list_def)
  from dump_all_table_stop[OF a[unfolded i]]
  show "paths_done t = int (length vs)" and "paths_done t < stopping_point t" by simp_all
next
  let ?t = "ConvergenceTable (StatisticsMean (sum_list vs) (int (length vs))) (fresh h)
                  (next_stop 0 2 vs) (int (length vs))"
  from fresh_table_feed[of vs h] obtain h' where
    d: "dump_all vs (fst (ConvergenceTable_init StatisticsMean_init h))
               (snd (ConvergenceTable_init StatisticsMean_init h)) = Inr (?t, h')"
    and i: "fresh h < fresh h'" "\<forall>r\<in>set (list_at h' (fresh h)). r < fresh h'"
    by blast
  have ns: "int (length vs) \<noteq> next_stop 0 2 vs"
    using next_stop_bound[of 0 2 vs] by simp
  have one: "vs \<noteq> [] \<longrightarrow>
      results_view ?t h' =
      Inr (rows_of h' (fresh h) @ [[PyFloat (sum_list vs / real (length vs)), PyInt (int (length vs))]])"
  proof
    assume "vs \<noteq> []"
    then have nz: "int (length vs) \<noteq> 0" by simp
    show "results_view ?t h' =
      Inr (rows_of h' (fresh h) @ [[PyFloat (sum_list vs / real (length vs)), PyInt (int (length vs))]])"
      using table_mean_view(1)[OF nz ns i, of "sum_list vs"] by simp
  qed
  have none: "vs = [] \<longrightarrow> results_view ?t h' = Inl ZeroDivisionError"
    by (simp add: results_view_def heap_defs)
  from d one none
  show "\<exists>t h'. dump_all vs (fst (ConvergenceTable_init StatisticsMean_init h))
                 (snd (ConvergenceTable_init StatisticsMean_init h)) = Inr (t, h')
        \<and> (vs \<noteq> [] \<longrightarrow>
             results_view t h' =
               Inr (rows_of h' (results_so_far t) @
                    [[PyFloat (sum_list vs / real (length vs)), PyInt (paths_done t)]]))
        \<and> (vs = [] \<longrightarrow> results_view t h' = Inl ZeroDivisionError)"
    by (intro exI[of _ ?t] exI[of _ h']) simp
qed

text \<open>C10, as the code has it, after the three results 1, 3, 5.\<close>

theorem table_stop_invariant_and_live_row_witness:
  "[1, 3, 5] \<noteq> ([] :: real list)
 \<and> (\<exists>t h'. dump_all [1, 3, 5] (fst (ConvergenceTable_init StatisticsMean_init empty_heap))
                 (snd (ConvergenceTable_init StatisticsMean_init empty_heap)) = Inr (t, h')
        \<and> paths_done t = 3 \<and> paths_done t < stopping_point t
        \<and> results_view t h' =
               Inr (rows_of h' (results_so_far t) @ [[PyFloat 3, PyInt (paths_done t)]]))"
proof -
  note th = table_stop_invariant_and_live_row [of "[1, 3, 5]" empty_heap]
  from th obtain t h' where
    d: "dump_all [1, 3, 5] (fst (ConvergenceTable_init StatisticsMean_init empty_heap))
                 (snd (ConvergenceTable_init StatisticsMean_init empty_heap)) = Inr (t, h')"
    and v: "results_view t h' =
               Inr (rows_of h' (results_so_far t) @ [[PyFloat (sum_list [1, 3, 5] / real (length [1, 3, 5 :: real])), PyInt (paths_done t)]])"
    by blast
  from th d have "paths_done t = int (length [1, 3, 5 :: real]) \<and> paths_done t < stopping_point t"
    by blast
  with d v show ?thesis by (intro conjI exI[of _ t] exI[of _ h']) simp_all
qed

text \<open>
  C10, as the claim states it, fails in two reachable states. On a new table over a mean,
  with nothing fed, the live-row branch is taken and the mean raises
  \<^verbatim>\<open>ZeroDivisionError\<close>: no sequence is returned. On a table over a table over a mean, after
  two results, the returned sequence has two rows more than the recorded one.
\<close>

theorem live_row_counterexample:
  "returned_rows (mean_table_fed []) = Inl ZeroDivisionError
 \<and> recorded_rows (nested_table_fed [1, 3]) =
     Inr [[PyFloat 2, PyInt 2, PyInt 2], [PyFloat 2, PyInt 2, PyInt 2]]
 \<and> returned_rows (nested_table_fed [1, 3]) =
     Inr [[PyFloat 2, PyInt 2, PyInt 2, PyInt 2], [PyFloat 2, PyInt 2, PyInt 2],
          [PyFloat 2, PyInt 2, PyInt 2, PyInt 2], [PyFloat 2, PyInt 2, PyInt 2]]"
  by (simp add: run_defs heap_defs)

text \<open>
  C1 fails on the code. After \<open>N = 2\<close> results the table over a mean returns two rows,
  both tagged 2: the recorded snapshot and a live row for the same path count. After
  \<open>N = 4\<close> results the rows are tagged 2, 4, 4. The column \<^verbatim>\<open>pathsUsed\<close> is not strictly
  increasing, and the final row is added although \<open>N\<close> is already recorded.
\<close>

theorem doubling_point_row_repeated:
  "returned_rows (mean_table_fed [1, 3]) = Inr [[PyFloat 2, PyInt 2], [PyFloat 2, PyInt 2]]
 \<and> map paths_used [[PyFloat 2, PyInt 2], [PyFloat 2, PyInt 2]] = [Some 2, Some 2]
 \<and> returned_rows (mean_table_fed [1, 3, 5, 7]) =
     Inr [[PyFloat 2, PyInt 2], [PyFloat 4, PyInt 4], [PyFloat 4, PyInt 4]]"
  by (simp add: run_defs heap_defs)

text \<open>
  C9 fails on the code for a table over a table over a mean, fed the results 1 and 3. The
  rows its inner table returns are shared with the inner table's recorded list, and
  \<^verbatim>\<open>get_results_so_far\<close> of the outer table appends \<open>paths_done\<close> to them in place: one query
  lengthens the first recorded row of the outer table, and a second query returns
  different rows than the first.
\<close>

theorem nested_query_not_idempotent:
  "recorded_rows (nested_table_fed [1, 3]) =
     Inr [[PyFloat 2, PyInt 2, PyInt 2], [PyFloat 2, PyInt 2, PyInt 2]]
 \<and> recorded_rows (after_query (nested_table_fed [1, 3])) =
     Inr [[PyFloat 2, PyInt 2, PyInt 2, PyInt 2], [PyFloat 2, PyInt 2, PyInt 2]]
 \<and> returned_rows (nested_table_fed [1, 3]) =
     Inr [[PyFloat 2, PyInt 2, PyInt 2, PyInt 2], [PyFloat 2, PyInt 2, PyInt 2],
          [PyFloat 2, PyInt 2, PyInt 2, PyInt 2], [PyFloat 2, PyInt 2, PyInt 2]]
 \<and> returned_rows (after_query (nested_table_fed [1, 3])) =
     Inr [[PyFloat 2, PyInt 2, PyInt 2, PyInt 2, PyInt 2], [PyFloat 2, PyInt 2, PyInt 2],
          [PyFloat 2, PyInt 2, PyInt 2, PyInt 2, PyInt 2], [PyFloat 2, PyInt 2, PyInt 2]]"
  by (simp add: run_defs heap_defs)

text \<open>
  C3, as the code has it. For a number of paths \<open>N > 0\<close>, an expiry \<open>\<ge> 0\<close> and no
  overflow in \<^verbatim>\<open>math.exp\<close>, \<^verbatim>\<open>call_price\<close> runs \<^verbatim>\<open>call_price_stats\<close>, which returns a table,
  and returns the first entry of the last row of that table's \<^verbatim>\<open>get_results_so_far()\<close>. That
  row is not one of the rows recorded in \<^verbatim>\<open>results_so_far\<close>: it is the live row, appended
  after the recorded rows, tagged \<open>N\<close> and holding the mean of all \<open>N\<close> fed values. No
  recorded row has a path count above \<open>N\<close>. Likewise for \<^verbatim>\<open>put_price\<close> and
  \<^verbatim>\<open>put_price_stats\<close>.
\<close>

theorem price_is_last_row_value:
  assumes "0 < n" "0 \<le> e"
    and "no_overflow (VanillaOption e (PayOffCall strike)) (ParametersConstant vol) (ParametersConstant r)
           (draws gauss (nat n) (case seed of None \<Rightarrow> g | Some s \<Rightarrow> seed_rng s))"
  shows "(\<exists>t g' h' fed.
           call_price_stats seed_rng gauss strike e spot vol r n seed g h = Inr (t, g', h')
         \<and> fed = fed_values (VanillaOption e (PayOffCall strike)) spot (ParametersConstant vol)
                   (ParametersConstant r)
                   (draws gauss (nat n) (case seed of None \<Rightarrow> g | Some s \<Rightarrow> seed_rng s))
         \<and> rows_of h' (results_so_far t) = snapshots 0 0 2 fed
         \<and> (\<forall>row\<in>set (rows_of h' (results_so_far t)). \<exists>k. paths_used row = Some k \<and> k \<le> n)
         \<and> results_view t h' =
             Inr (rows_of h' (results_so_far t) @ [[PyFloat (sum_list fed / of_int n), PyInt n]])
         \<and> call_price seed_rng gauss strike e spot vol r n seed g h =
             Inr (PyFloat (sum_list fed / of_int n)))
       \<and> (\<exists>t g' h' fed.
           put_price_stats seed_rng gauss strike e spot vol r n seed g h = Inr (t, g', h')
         \<and> fed = fed_values (VanillaOption e (PayOffPut strike)) spot (ParametersConstant vol)
                   (ParametersConstant r)
                   (draws gauss (nat n) (case seed of None \<Rightarrow> g | Some s \<Rightarrow> seed_rng s))
         \<and> rows_of h' (results_so_far t) = snapshots 0 0 2 fed
         \<and> (\<forall>row\<in>set (rows_of h' (results_so_far t)). \<exists>k. paths_used row = Some k \<and> k \<le> n)
         \<and> results_view t h' =
             Inr (rows_of h' (results_so_far t) @ [[PyFloat (sum_list fed / of_int n), PyInt n]])
         \<and> put_price seed_rng gauss strike e spot vol r n seed g h =
             Inr (PyFloat (sum_list fed / of_int n)))"
proof -
  let ?zs = "draws gauss (nat n) (case seed of None \<Rightarrow> g | Some s \<Rightarrow> seed_rng s)"
  have len: "int (length ?zs) = n" using assms(1) by (simp add: length_draws)
  have tags: "\<forall>row\<in>set (snapshots 0 0 2 (fed_values opt spot vol' r' ?zs)).
                \<exists>k. paths_used row = Some k \<and> k \<le> n" for opt vol' r'
  proof
    fix row assume "row \<in> set (snapshots 0 0 2 (fed_values opt spot vol' r' ?zs))"
    from snapshots_paths_used[OF this] len show "\<exists>k. paths_used row = Some k \<and> k \<le> n"
      by (auto simp: length_fed_values)
  qed
  have put_ok: "no_overflow (VanillaOption e (PayOffPut strike)) (ParametersConstant vol)
                  (ParametersConstant r) ?zs"
    using assms(3) by (simp add: no_overflow_def VanillaOption_def)
  show ?thesis
  proof
    from priced_last_row[OF assms, of spot h]
    show "\<exists>t g' h' fed.
           call_price_stats seed_rng gauss strike e spot vol r n seed g h = Inr (t, g', h')
         \<and> fed = fed_values (VanillaOption e (PayOffCall strike)) spot (ParametersConstant vol)
                   (ParametersConstant r) ?zs
         \<and> rows_of h' (results_so_far t) = snapshots 0 0 2 fed
         \<and> (\<forall>row\<in>set (rows_of h' (results_so_far t)). \<exists>k. paths_used row = Some k \<and> k \<le> n)
         \<and> results_view t h' =
             Inr (rows_of h' (results_so_far t) @ [[PyFloat (sum_list fed / of_int n), PyInt n]])
         \<and> call_price seed_rng gauss strike e spot vol r n seed g h =
             Inr (PyFloat (sum_list fed / of_int n))"
      using tags by (fastforce simp: call_price_stats_def call_price_def split_beta)
    from priced_last_row[OF assms(1,2) put_ok, of spot h]
    show "\<exists>t g' h' fed.
           put_price_stats seed_rng gauss strike e spot vol r n seed g h = Inr (t, g', h')
         \<and> fed = fed_values (VanillaOption e (PayOffPut strike)) spot (ParametersConstant vol)
                   (ParametersConstant r) ?zs
         \<and> rows_of h' (results_so_far t) = snapshots 0 0 2 fed
         \<and> (\<forall>row\<in>set (rows_of h' (results_so_far t)). \<exists>k. paths_used row = Some k \<and> k \<le> n)
         \<and> results_view t h' =
             Inr (rows_of h' (results_so_far t) @ [[PyFloat (sum_list fed / of_int n), PyInt n]])
         \<and> put_price seed_rng gauss strike e spot vol r n seed g h =
             Inr (PyFloat (sum_list fed / of_int n))"
      using tags by (fastforce simp: put_price_stats_def put_price_def split_beta)
  qed
qed

text \<open>C3, as the code has it, for a call with three paths, seed 7 and the sample generator.\<close>

theorem price_is_last_row_value_witness:
  "(0::int) < 3 \<and> (0::real) \<le> 1
   \<and> no_overflow (VanillaOption 1 (PayOffCall 15)) (ParametersConstant 1) (ParametersConstant 0)
        (draws counter_gauss (nat 3) (counter_seed 7))
   \<and> (\<exists>t g' h' fed.
           call_price_stats counter_seed counter_gauss 15 1 30 1 0 3 (Some 7) 0 empty_heap = Inr (t, g', h')
         \<and> rows_of h' (results_so_far t) = snapshots 0 0 2 fed
         \<and> results_view t h' =
             Inr (rows_of h' (results_so_far t) @ [[PyFloat (sum_list fed / of_int 3), PyInt 3]])
         \<and> call_price counter_seed counter_gauss 15 1 30 1 0 3 (Some 7) 0 empty_heap =
             Inr (PyFloat (sum_list fed / of_int 3)))"
proof -
  have p: "(0::int) < 3" and q: "(0::real) \<le> 1" by simp_all
  have d: "draws counter_gauss (nat 3) (counter_seed 7) = [7, 8, 9]"
    by (simp add: counter_gauss_def counter_seed_def numeral_3_eq_3)
  have n: "no_overflow (VanillaOption 1 (PayOffCall 15)) (ParametersConstant 1) (ParametersConstant 0)
        (draws counter_gauss (nat 3) (counter_seed 7))"
    unfolding d
    by (simp add: no_overflow_def integral_square_def integral_def ParametersConstant_def
        VanillaOption_def exp_overflow_arg_def)
  have n': "no_overflow (VanillaOption 1 (PayOffCall 15)) (ParametersConstant 1) (ParametersConstant 0)
        (draws counter_gauss (nat 3) (case Some 7 of None \<Rightarrow> 0 | Some s \<Rightarrow> counter_seed s))"
    using n by simp
  from price_is_last_row_value [OF p q n', where spot = 30 and h = empty_heap]
  show ?thesis using p q n by blast
qed

text \<open>
  C3, as the claim states it, fails for a call with strike 3, spot 1, volatility 1, rate
  \<open>1/2\<close>, expiry 1, three paths and the draws 0, 1, 2. The only recorded row is the
  snapshot at two paths, whose value is 0; the price returned is the value of the live row
  for three paths, which is positive.
\<close>

theorem price_is_not_a_recorded_value:
  "recorded_rows (drop_rng (call_price_stats counter_seed counter_gauss 3 1 1 1 (1/2) 3 (Some 0) 0 empty_heap)) =
     Inr [[PyFloat 0, PyInt 2]]
 \<and> call_price counter_seed counter_gauss 3 1 1 1 (1/2) 3 (Some 0) 0 empty_heap =
     Inr (PyFloat (exp (- (1/2)) * (exp 2 - 3) / 3))
 \<and> PyFloat (exp (- (1/2)) * (exp 2 - 3) / 3) \<noteq> PyFloat 0"
proof -
  have d: "draws counter_gauss (nat 3) (counter_seed 0) = [0, 1, 2]"
    by (simp add: counter_gauss_def counter_seed_def numeral_3_eq_3)
  have e1: "exp (1::real) \<le> 3" by (rule exp_le)
  have "2 \<le> exp (1::real)" using exp_ge_add_one_self[of "1::real"] by simp
  then have "2 * 2 \<le> exp (1::real) * exp 1" by (intro mult_mono) simp_all
  moreover have "exp (2::real) = exp 1 * exp 1" by (simp add: exp_add[symmetric])
  ultimately have e2: "3 < exp (2::real)" by simp
  have fed: "fed_values (VanillaOption 1 (PayOffCall 3)) 1 (ParametersConstant 1)
               (ParametersConstant (1/2)) [0, 1, 2] = [0, 0, exp (- (1/2)) * (exp 2 - 3)]"
    using e1 e2
    by (simp add: fed_values_def VanillaOption_def ParametersConstant_def integral_def
        integral_square_def calc_pay_off_def Let_def max_def)
  have n: "no_overflow (VanillaOption 1 (PayOffCall 3)) (ParametersConstant 1) (ParametersConstant (1/2))
        (draws counter_gauss (nat 3) (case Some 0 of None \<Rightarrow> 0 | Some s \<Rightarrow> counter_seed s))"
    using d
    by (simp add: no_overflow_def integral_square_def integral_def ParametersConstant_def
        VanillaOption_def exp_overflow_arg_def)
  have p: "(0::int) < 3" and q: "(0::real) \<le> 1" by simp_all
  from priced_last_row[OF p q n, of 1 empty_heap] obtain t g' h' where
    run: "option_price counter_seed counter_gauss (VanillaOption 1 (PayOffCall 3)) 1 (ParametersConstant 1)
             (ParametersConstant (1/2)) 3 (fst (ConvergenceTable_init StatisticsMean_init empty_heap)) (Some 0) 0
             (snd (ConvergenceTable_init StatisticsMean_init empty_heap)) = Inr (t, g', h')"
    and rec: "rows_of h' (results_so_far t) = snapshots 0 0 2 [0, 0, exp (- (1/2)) * (exp 2 - 3)]"
    and lrv: "last_row_value t h' = Inr (PyFloat (sum_list [0, 0, exp (- (1/2)) * (exp 2 - 3)] / of_int 3))"
    using d fed by auto
  have stats: "call_price_stats counter_seed counter_gauss 3 1 1 1 (1/2) 3 (Some 0) 0 empty_heap = Inr (t, g', h')"
    using run by (simp add: call_price_stats_def split_beta)
  have a: "recorded_rows (drop_rng (call_price_stats counter_seed counter_gauss 3 1 1 1 (1/2) 3 (Some 0) 0 empty_heap)) =
     Inr [[PyFloat 0, PyInt 2]]"
    by (simp add: stats drop_rng_def recorded_rows_def rec)
  have b: "call_price counter_seed counter_gauss 3 1 1 1 (1/2) 3 (Some 0) 0 empty_heap =
     Inr (PyFloat (exp (- (1/2)) * (exp 2 - 3) / 3))"
    by (simp add: call_price_def stats lrv)
  have c: "PyFloat (exp (- (1/2)) * (exp 2 - 3) / 3) \<noteq> PyFloat 0"
    using e2 by simp
  from a b c show ?thesis by blast
qed

text \<open>
  C5. Two pricing calls with the same strike, expiry, spot, volatility, rate, number of
  paths and the same seed return tables with the same content (the same recorded rows and
  the same result of \<^verbatim>\<open>get_results_so_far()\<close>, or the same exception), whatever the state
  of the generator and of the store before each call.
\<close>

theorem seeded_pricing_deterministic:
  "table_content (drop_rng (call_price_stats seed_rng gauss strike e spot vol r n (Some s) g1 h1)) =
   table_content (drop_rng (call_price_stats seed_rng gauss strike e spot vol r n (Some s) g2 h2))
 \<and> table_content (drop_rng (put_price_stats seed_rng gauss strike e spot vol r n (Some s) g1 h1)) =
   table_content (drop_rng (put_price_stats seed_rng gauss strike e spot vol r n (Some s) g2 h2))"
  by (simp add: call_price_stats_def put_price_stats_def split_beta priced_table_content)

end
